theory Spec2Isabelle
  imports Complex_Main
begin

section \<open>Numbers and rounding\<close>

text \<open>
  The scores of the program are Python floats. They are modelled as exact rationals:
  the arithmetic of the model is the arithmetic the source writes down, without the
  representation error of binary floating point.

  \<^verbatim>\<open>round(x, 2)\<close> rounds to two decimals, a tie going to the even neighbour.
\<close>

definition py_round2 :: "rat \<Rightarrow> rat" where
  "py_round2 x =
     (let y = x * 100;
          f = \<lfloor>y\<rfloor>;
          d = y - of_int f
      in (if d < 1 / 2 then of_int f
          else if 1 / 2 < d then of_int f + 1
          else if even f then of_int f
          else of_int f + 1) / 100)"

section \<open>Text utilities (utils/text\_utils.py)\<close>

text \<open>
  A Python string is modelled as a list of characters with code points below 256.
  \<open>is_space\<close> is the class \<^verbatim>\<open>\s\<close> of the \<^verbatim>\<open>re\<close> module (and of \<^verbatim>\<open>str.strip\<close>),
  \<open>is_word\<close> the class \<^verbatim>\<open>\w\<close>, \<open>lower_char\<close> is \<^verbatim>\<open>str.lower\<close> on one character.
\<close>

definition is_space :: "char \<Rightarrow> bool" where
  "is_space c =
     (let n = (of_char c :: nat)
      in (9 \<le> n \<and> n \<le> 13) \<or> (28 \<le> n \<and> n \<le> 32) \<or> n = 133 \<or> n = 160)"

definition is_word :: "char \<Rightarrow> bool" where
  "is_word c =
     (let n = (of_char c :: nat)
      in (48 \<le> n \<and> n \<le> 57) \<or> (65 \<le> n \<and> n \<le> 90) \<or> n = 95 \<or> (97 \<le> n \<and> n \<le> 122)
         \<or> n = 170 \<or> n = 178 \<or> n = 179 \<or> n = 181 \<or> n = 185 \<or> n = 186
         \<or> (188 \<le> n \<and> n \<le> 190) \<or> (192 \<le> n \<and> n \<le> 214)
         \<or> (216 \<le> n \<and> n \<le> 246) \<or> (248 \<le> n \<and> n \<le> 255))"

definition lower_char :: "char \<Rightarrow> char" where
  "lower_char c =
     (let n = (of_char c :: nat)
      in if (65 \<le> n \<and> n \<le> 90) \<or> (192 \<le> n \<and> n \<le> 214) \<or> (216 \<le> n \<and> n \<le> 222)
         then char_of (n + 32) else c)"

definition lower :: "string \<Rightarrow> string" where
  "lower s = map lower_char s"

definition strip :: "string \<Rightarrow> string" where
  "strip s = rev (dropWhile is_space (rev (dropWhile is_space s)))"

text \<open>\<^verbatim>\<open>re.sub(r'\s+', ' ', s)\<close>: every maximal run of whitespace becomes one space.\<close>

function collapse_whitespace :: "string \<Rightarrow> string" where
  "collapse_whitespace [] = []"
| "collapse_whitespace (c # cs) =
     (if is_space c then CHR '' '' # collapse_whitespace (dropWhile is_space cs)
      else c # collapse_whitespace cs)"
  by pat_completeness auto
termination
  by (relation "measure length") (auto simp: length_dropWhile_le less_Suc_eq_le)

text \<open>\<^verbatim>\<open>re.sub(r'[^\w\s]', '', s)\<close>: every character that is neither a word character nor
  whitespace is deleted.\<close>

definition remove_special :: "string \<Rightarrow> string" where
  "remove_special s = filter (\<lambda>c. is_word c \<or> is_space c) s"

definition normalize_text :: "string \<Rightarrow> string" where
  "normalize_text t = remove_special (collapse_whitespace (strip (lower t)))"

section \<open>Errors\<close>

text \<open>
  The exceptions the scoring code can raise. The messages of the \<^verbatim>\<open>RuntimeError\<close>s are
  formatted strings; the model keeps the message's kind and the values formatted into it.
\<close>

datatype error =
    ZeroDivisionError
  | KeyError string
  | LLM_function_not_provided int
  | LLM_failed_for_clause int string
  | Cannot_use_traditional int
  | LLM_failed_for_article int

section \<open>Aggregation (utils/scoring\_utils.py, calculate\_overall\_score)\<close>

definition GOV_ONLY_ARTICLES :: "int set" where
  "GOV_ONLY_ARTICLES = {}"

definition INCLUDED_ARTICLES_FOR_OVERALL :: "int set" where
  "INCLUDED_ARTICLES_FOR_OVERALL = {4, 5, 10, 11, 12, 13, 15, 20, 25, 26, 29}"

text \<open>
  A match is a dictionary; the aggregator reads three of its keys, each with
  \<^verbatim>\<open>dict.get\<close> and a default. A key that is absent is \<open>None\<close>.
\<close>

record match_rec =
  m_article_number :: "int option"
  m_coverage_percentage :: "rat option"
  m_band :: "string option"

definition get_article_number :: "match_rec \<Rightarrow> int" where
  "get_article_number m = (case m_article_number m of None \<Rightarrow> 0 | Some n \<Rightarrow> n)"

definition get_coverage_percentage :: "match_rec \<Rightarrow> rat" where
  "get_coverage_percentage m = (case m_coverage_percentage m of None \<Rightarrow> 0 | Some p \<Rightarrow> p)"

definition get_band :: "match_rec \<Rightarrow> string" where
  "get_band m = (case m_band m of None \<Rightarrow> ''Missing'' | Some b \<Rightarrow> b)"

text \<open>
  The returned dictionary. The three lists of article numbers are absent from the
  dictionary returned for an empty list of matches.
\<close>

record overall_report =
  overall_score :: rat
  compliance_level :: string
  total_articles :: nat
  articles_analyzed :: nat
  covered_count :: nat
  covered_articles :: "int list option"
  partially_covered_count :: nat
  partially_covered_articles :: "int list option"
  low_coverage_count :: nat
  low_coverage_articles :: "int list option"
  missing_count :: nat
  missing_articles :: "int list"
  average_article_coverage :: rat

text \<open>
  The first loop over the matches fills the dictionary \<^verbatim>\<open>article_scores\<close>, the second
  the dictionary \<^verbatim>\<open>unique_articles_by_band\<close>. A dictionary keeps its keys in insertion
  order; it is an association list here, extended at the end, and a key already present
  is left alone.
\<close>

fun collect_article_scores :: "match_rec list \<Rightarrow> (int \<times> rat) list \<Rightarrow> (int \<times> rat) list" where
  "collect_article_scores [] article_scores = article_scores"
| "collect_article_scores (m # ms) article_scores =
     (let article_num = get_article_number m
      in if INCLUDED_ARTICLES_FOR_OVERALL \<noteq> {} \<and> article_num \<notin> INCLUDED_ARTICLES_FOR_OVERALL
         then collect_article_scores ms article_scores
         else if article_num \<in> GOV_ONLY_ARTICLES
         then collect_article_scores ms article_scores
         else if article_num \<notin> fst ` set article_scores
         then collect_article_scores ms (article_scores @ [(article_num, get_coverage_percentage m)])
         else collect_article_scores ms article_scores)"

fun collect_article_bands :: "match_rec list \<Rightarrow> (int \<times> string) list \<Rightarrow> (int \<times> string) list" where
  "collect_article_bands [] unique_articles_by_band = unique_articles_by_band"
| "collect_article_bands (m # ms) unique_articles_by_band =
     (let article_num = get_article_number m
      in if INCLUDED_ARTICLES_FOR_OVERALL \<noteq> {} \<and> article_num \<notin> INCLUDED_ARTICLES_FOR_OVERALL
         then collect_article_bands ms unique_articles_by_band
         else if article_num \<in> GOV_ONLY_ARTICLES
         then collect_article_bands ms unique_articles_by_band
         else if article_num \<notin> fst ` set unique_articles_by_band
         then collect_article_bands ms (unique_articles_by_band @ [(article_num, get_band m)])
         else collect_article_bands ms unique_articles_by_band)"

definition articles_with_band :: "string \<Rightarrow> (int \<times> string) list \<Rightarrow> int list" where
  "articles_with_band b unique_articles_by_band =
     sort (map fst (filter (\<lambda>(num, b'). b' = b) unique_articles_by_band))"

text \<open>
  The argument \<^verbatim>\<open>total_articles\<close> is overwritten before it is read; the argument
  \<^verbatim>\<open>all_article_numbers\<close> defaults to \<^verbatim>\<open>None\<close>.
\<close>

definition calculate_overall_score ::
  "match_rec list \<Rightarrow> nat \<Rightarrow> int list option \<Rightarrow> error + overall_report" where
  "calculate_overall_score matches total_articles_arg all_article_numbers_arg =
     (let all_article_numbers0 =
            (case all_article_numbers_arg of None \<Rightarrow> [2..45] | Some ns \<Rightarrow> ns);
          all_article_numbers =
            (if INCLUDED_ARTICLES_FOR_OVERALL \<noteq> {}
             then filter (\<lambda>num. num \<in> INCLUDED_ARTICLES_FOR_OVERALL) all_article_numbers0
             else filter (\<lambda>num. num \<notin> GOV_ONLY_ARTICLES) all_article_numbers0);
          n_total = length all_article_numbers
      in if matches = [] then
           Inr \<lparr> overall_score = 0,
                 compliance_level = ''Critical'',
                 total_articles = n_total,
                 articles_analyzed = 0,
                 covered_count = 0,
                 covered_articles = None,
                 partially_covered_count = 0,
                 partially_covered_articles = None,
                 low_coverage_count = 0,
                 low_coverage_articles = None,
                 missing_count = n_total,
                 missing_articles = all_article_numbers,
                 average_article_coverage = 0 \<rparr>
         else
           let article_scores = collect_article_scores matches [];
               total_coverage = sum_list (map snd article_scores)
           in if n_total = 0 then Inl ZeroDivisionError
              else
                let score = py_round2 (total_coverage / of_nat n_total);
                    unique_articles_by_band = collect_article_bands matches [];
                    covered = articles_with_band ''Full'' unique_articles_by_band;
                    partially_covered = articles_with_band ''Partial'' unique_articles_by_band;
                    low_coverage = articles_with_band ''Missing'' unique_articles_by_band;
                    missing_article_numbers =
                      sort (filter (\<lambda>num. num \<notin> fst ` set article_scores) all_article_numbers);
                    level =
                      (if 75 \<le> score then ''compliant''
                       else if 40 \<le> score then ''partially_compliant''
                       else ''not_compliant'')
                in Inr \<lparr> overall_score = score,
                         compliance_level = level,
                         total_articles = n_total,
                         articles_analyzed = length article_scores,
                         covered_count = length covered,
                         covered_articles = Some covered,
                         partially_covered_count = length partially_covered,
                         partially_covered_articles = Some partially_covered,
                         low_coverage_count = length low_coverage,
                         low_coverage_articles = Some low_coverage,
                         missing_count = length missing_article_numbers,
                         missing_articles = missing_article_numbers,
                         average_article_coverage =
                           (if article_scores \<noteq> []
                            then py_round2 (sum_list (map snd article_scores)
                                            / of_nat (length article_scores))
                            else 0) \<rparr>)"



definition effective_scope :: "int list \<Rightarrow> int list" where
  "effective_scope scope = filter (\<lambda>n. n \<in> INCLUDED_ARTICLES_FOR_OVERALL) scope"


section \<open>Coverage scoring (utils/scoring\_utils.py)\<close>

text \<open>
  An article of the law and a clause of an article are dictionaries of the same shape
  (a non-main article is scored as its own single clause). The scorer reads every key
  with \<^verbatim>\<open>dict.get\<close> and a default, so a key that is absent is its default here:
  \<^verbatim>\<open>article_number\<close> 0, \<^verbatim>\<open>is_main_article\<close> False, \<^verbatim>\<open>clauses\<close> the empty list and the
  empty string for \<^verbatim>\<open>id\<close>, \<^verbatim>\<open>text\<close>, \<^verbatim>\<open>label\<close>, \<^verbatim>\<open>title\<close> and \<^verbatim>\<open>path\<close>.
\<close>

datatype article = Article
  (art_number: int) (art_id: string) (is_main_article: bool) (art_text: string)
  (art_label: string) (art_title: string) (art_path: string) (clauses: "article list")

text \<open>
  The judge \<^verbatim>\<open>llm_clause_match_func\<close> takes the clause text, the text of the document,
  the article number and the clause label, and returns a dictionary or \<^verbatim>\<open>None\<close>. The
  argument itself is optional.
\<close>

record llm_result =
  score :: rat
  explanation :: string
  confidence :: string

type_synonym judge = "string \<Rightarrow> string \<Rightarrow> int \<Rightarrow> string \<Rightarrow> llm_result option"

text \<open>
  The judgment recorded for one clause. The keys \<^verbatim>\<open>debug_scores\<close>, \<^verbatim>\<open>partial_reason\<close>
  and \<^verbatim>\<open>missing_reason\<close>, which carry display text only, are left out.
\<close>

record clause_info =
  ci_id :: string
  ci_article_number :: int
  ci_label :: string
  ci_path :: string
  ci_text :: string
  coverage_score :: rat
  matching_method :: string
  llm_explanation :: "string option"
  llm_confidence :: "string option"
  ci_band :: "string option"

text \<open>
  The clause lists of the returned dictionary hold clause judgments, except on the branch
  for an article without clauses, which puts the article itself in the list.
\<close>

datatype clause_entry = Judged clause_info | Whole article

text \<open>
  The returned dictionary. The branch for an article without clauses returns the key
  \<^verbatim>\<open>coverage_type\<close> and neither \<^verbatim>\<open>band\<close> nor the keys of the partially covered
  clauses; the other branches return \<^verbatim>\<open>band\<close> and no \<^verbatim>\<open>coverage_type\<close>.
\<close>

record coverage_info =
  band :: "string option"
  coverage_type :: "string option"
  coverage_percentage :: rat
  covered_clauses :: "clause_entry list"
  partially_covered_clauses :: "clause_entry list option"
  missing_clauses :: "clause_entry list"
  total_clauses :: nat
  covered_clauses_count :: nat
  partially_covered_clauses_count :: "nat option"
  missing_clauses_count :: nat
  article_id :: string
  article_number :: int

text \<open>Decimal formatting of an integer, as an f-string does it.\<close>

definition digit_char :: "nat \<Rightarrow> char" where
  "digit_char d = char_of (of_char CHR ''0'' + d)"

fun decimal_digits :: "nat \<Rightarrow> string" where
  "decimal_digits n =
     (if 10 \<le> n then decimal_digits (n div 10) @ [digit_char (n mod 10)]
      else [digit_char n])"

definition format_int :: "int \<Rightarrow> string" where
  "format_int i =
     (if 0 \<le> i then decimal_digits (nat i) else CHR ''-'' # decimal_digits (nat (- i)))"

text \<open>\<^verbatim>\<open>' '.join(texts)\<close>\<close>

fun join_space :: "string list \<Rightarrow> string" where
  "join_space [] = []"
| "join_space [t] = t"
| "join_space (t # ts) = t @ '' '' @ join_space ts"

text \<open>\<^verbatim>\<open>text[:200] + '...' if len(text) > 200 else text\<close>\<close>

definition text_preview :: "string \<Rightarrow> string" where
  "text_preview t = (if 200 < length t then take 200 t @ ''...'' else t)"

text \<open>A key set only \<^verbatim>\<open>if value:\<close>, for a value that is a string or \<^verbatim>\<open>None\<close>.\<close>

definition if_truthy :: "string option \<Rightarrow> string option" where
  "if_truthy v = (case v of None \<Rightarrow> None | Some t \<Rightarrow> if t = [] then None else Some t)"

definition traditional_clause_match ::
  "string \<Rightarrow> string \<Rightarrow> rat \<Rightarrow> rat \<Rightarrow> rat \<times> string option \<times> string option \<times> string" where
  "traditional_clause_match clause_text full_text_normalized bm25_score e5_score =
     (let bm25_normalized = (if 0 < bm25_score then min 1 (bm25_score / 10) else 0);
          traditional_score = 0.4 * bm25_normalized + 0.6 * e5_score
      in (traditional_score, None, None, ''traditional_bm25_e5''))"

text \<open>
  The body of the loop over the clauses, up to the clause's coverage: the judge is asked
  when there is one, and the mode flag \<^verbatim>\<open>_llm_only_mode\<close> (a global of the module, an
  argument here) decides between an error and the traditional match.
\<close>

definition clause_coverage ::
  "bool \<Rightarrow> judge option \<Rightarrow> string \<Rightarrow> string \<Rightarrow> int \<Rightarrow> rat \<Rightarrow> rat \<Rightarrow> article \<Rightarrow>
   error + rat \<times> string option \<times> string option \<times> string" where
  "clause_coverage llm_only_mode llm_clause_match_func full_text full_text_normalized
     artnum bm25_score e5_score clause =
     (let clause_text = normalize_text (art_text clause)
      in if llm_clause_match_func = None \<and> llm_only_mode
         then Inl (LLM_function_not_provided artnum)
         else
           case llm_clause_match_func of
             Some f \<Rightarrow>
               (case f (art_text clause) full_text artnum (art_label clause) of
                  Some llm_result \<Rightarrow>
                    Inr (score llm_result, Some (explanation llm_result),
                         Some (confidence llm_result), ''llm_only_scoring'')
                | None \<Rightarrow>
                    if llm_only_mode
                    then Inl (LLM_failed_for_clause artnum (art_label clause))
                    else Inr (traditional_clause_match clause_text full_text_normalized
                                bm25_score e5_score))
           | None \<Rightarrow>
               if llm_only_mode then Inl (Cannot_use_traditional artnum)
               else Inr (traditional_clause_match clause_text full_text_normalized
                           bm25_score e5_score))"

text \<open>
  The loop over the clauses. Its state is the three lists of clause judgments and the list
  \<^verbatim>\<open>clause_coverage_scores\<close>. An exception ends the loop.
\<close>

type_synonym loop_state = "clause_info list \<times> clause_info list \<times> clause_info list \<times> rat list"

fun score_clauses ::
  "bool \<Rightarrow> judge option \<Rightarrow> string \<Rightarrow> string \<Rightarrow> int \<Rightarrow> rat \<Rightarrow> rat \<Rightarrow> article list \<Rightarrow>
   loop_state \<Rightarrow> error + loop_state" where
  "score_clauses llm_only_mode func full_text full_text_normalized artnum bm25_score e5_score
     [] st = Inr st"
| "score_clauses llm_only_mode func full_text full_text_normalized artnum bm25_score e5_score
     (clause # rest) (covered, partially_covered, missing, scores) =
     (let clause_text = normalize_text (art_text clause)
      in if clause_text = [] \<or> clause_text = ''article''
            \<or> clause_text = ''article '' @ format_int artnum
         then score_clauses llm_only_mode func full_text full_text_normalized artnum
                bm25_score e5_score rest (covered, partially_covered, missing, scores)
         else
           case clause_coverage llm_only_mode func full_text full_text_normalized artnum
                  bm25_score e5_score clause of
             Inl e \<Rightarrow> Inl e
           | Inr (coverage, explanation_opt, confidence_opt, method) \<Rightarrow>
               let cscore = py_round2 (coverage * 100);
                   info = \<lparr> ci_id = art_id clause,
                            ci_article_number = artnum,
                            ci_label = art_label clause,
                            ci_path = art_path clause,
                            ci_text = text_preview (art_text clause),
                            coverage_score = cscore,
                            matching_method = method,
                            llm_explanation = if_truthy explanation_opt,
                            llm_confidence = if_truthy confidence_opt,
                            ci_band = None \<rparr>
               in if 75 \<le> cscore
                  then score_clauses llm_only_mode func full_text full_text_normalized artnum
                         bm25_score e5_score rest
                         (covered @ [info], partially_covered, missing, scores @ [coverage])
                  else if 40 \<le> cscore
                  then score_clauses llm_only_mode func full_text full_text_normalized artnum
                         bm25_score e5_score rest
                         (covered, partially_covered @ [info\<lparr>ci_band := Some ''Partial''\<rparr>],
                          missing, scores @ [coverage])
                  else score_clauses llm_only_mode func full_text full_text_normalized artnum
                         bm25_score e5_score rest
                         (covered, partially_covered, missing @ [info], scores @ [coverage]))"

text \<open>
  The requirement text of the article-level path: the article's own text or, when that is
  empty, the clause texts joined by spaces; stripped.
\<close>

definition raw_article_text :: "article \<Rightarrow> article list \<Rightarrow> string" where
  "raw_article_text article cls =
     strip (if art_text article \<noteq> [] then art_text article
            else join_space (map art_text cls))"

text \<open>The article-level path: one call of the judge for the whole article.\<close>

definition calculate_article_coverage_llm_article_level ::
  "bool \<Rightarrow> article \<Rightarrow> string \<Rightarrow> string \<Rightarrow> int \<Rightarrow> string \<Rightarrow> article list \<Rightarrow> judge option \<Rightarrow>
   rat \<Rightarrow> rat \<Rightarrow> error + coverage_info" where
  "calculate_article_coverage_llm_article_level llm_only_mode article full_text
     full_text_normalized artnum artid cls llm_clause_match_func bm25_score e5_score =
     (let raw_text = raw_article_text article cls
      in if raw_text = [] then
           Inr \<lparr> band = Some ''Missing'', coverage_type = None, coverage_percentage = 0,
                 covered_clauses = [], partially_covered_clauses = Some [],
                 missing_clauses = [], total_clauses = 0, covered_clauses_count = 0,
                 partially_covered_clauses_count = Some 0, missing_clauses_count = 0,
                 article_id = artid, article_number = artnum \<rparr>
         else
           let article_text_normalized = normalize_text raw_text;
               llm_result =
                 (case llm_clause_match_func of
                    None \<Rightarrow> None
                  | Some f \<Rightarrow> f raw_text full_text artnum ''Article-level'')
           in case (case llm_result of
                      Some res \<Rightarrow>
                        Inr (score res, Some (explanation res), Some (confidence res),
                             ''llm_only_scoring_article'')
                    | None \<Rightarrow>
                        if llm_only_mode then Inl (LLM_failed_for_article artnum)
                        else (case traditional_clause_match article_text_normalized
                                     full_text_normalized bm25_score e5_score of
                                (traditional_score, _, _, method) \<Rightarrow>
                                  Inr (traditional_score, None, None, method))) of
                Inl e \<Rightarrow> Inl e
              | Inr (article_coverage, explanation_opt, confidence_opt, method) \<Rightarrow>
                  let percentage = py_round2 (article_coverage * 100);
                      article_band =
                        (if 75 \<le> percentage then ''Full''
                         else if 40 \<le> percentage then ''Partial''
                         else ''Missing'');
                      info = \<lparr> ci_id = artid,
                               ci_article_number = artnum,
                               ci_label = (if art_title article \<noteq> [] then art_title article
                                           else ''Article '' @ format_int artnum),
                               ci_path = art_path article,
                               ci_text = text_preview raw_text,
                               coverage_score = percentage,
                               matching_method = method,
                               llm_explanation = if_truthy explanation_opt,
                               llm_confidence = if_truthy confidence_opt,
                               ci_band = None \<rparr>;
                      covered = (if 75 \<le> percentage then [Judged info] else []);
                      partially_covered =
                        (if 75 \<le> percentage then []
                         else if 40 \<le> percentage
                         then [Judged (info\<lparr>ci_band := Some ''Partial''\<rparr>)]
                         else []);
                      missing =
                        (if 75 \<le> percentage then []
                         else if 40 \<le> percentage then []
                         else [Judged info])
                  in Inr \<lparr> band = Some article_band, coverage_type = None,
                           coverage_percentage = percentage,
                           covered_clauses = covered,
                           partially_covered_clauses = Some partially_covered,
                           missing_clauses = missing,
                           total_clauses = 1,
                           covered_clauses_count = length covered,
                           partially_covered_clauses_count = Some (length partially_covered),
                           missing_clauses_count = length missing,
                           article_id = artid, article_number = artnum \<rparr>)"

text \<open>
  \<^verbatim>\<open>calculate_article_coverage\<close>. The first argument is the module's flag
  \<^verbatim>\<open>_llm_only_mode\<close>; \<^verbatim>\<open>extracted_text\<close> is the list of the page texts. The argument
  \<^verbatim>\<open>pdpl_articles\<close> of the source is never read and is left out.
\<close>

definition calculate_article_coverage ::
  "bool \<Rightarrow> article \<Rightarrow> string list \<Rightarrow> judge option \<Rightarrow> rat \<Rightarrow> rat \<Rightarrow> error + coverage_info" where
  "calculate_article_coverage llm_only_mode article extracted_text llm_clause_match_func
     bm25_score e5_score =
     (let full_text = join_space extracted_text;
          full_text_normalized = normalize_text full_text;
          artnum = art_number article;
          artid = art_id article;
          cls = (if is_main_article article then clauses article else [article])
      in if llm_clause_match_func \<noteq> None \<and> is_main_article article then
           calculate_article_coverage_llm_article_level llm_only_mode article full_text
             full_text_normalized artnum artid cls llm_clause_match_func bm25_score e5_score
         else if cls = [] then
           let bm25_normalized = (if 0 < bm25_score then min 1 (bm25_score / 10) else 0);
               coverage = 0.4 * bm25_normalized + 0.6 * e5_score;
               percentage = py_round2 (coverage * 100);
               ctype =
                 (if 75 \<le> percentage then ''covered''
                  else if 40 \<le> percentage then ''partially_covered''
                  else ''missing'')
           in Inr \<lparr> band = None, coverage_type = Some ctype,
                    coverage_percentage = percentage,
                    covered_clauses = (if percentage < 40 then [] else [Whole article]),
                    partially_covered_clauses = None,
                    missing_clauses = (if percentage < 40 then [Whole article] else []),
                    total_clauses = 1,
                    covered_clauses_count = (if 40 \<le> percentage then 1 else 0),
                    partially_covered_clauses_count = None,
                    missing_clauses_count = (if 40 \<le> percentage then 0 else 1),
                    article_id = artid, article_number = artnum \<rparr>
         else
           case score_clauses llm_only_mode llm_clause_match_func full_text
                  full_text_normalized artnum bm25_score e5_score cls ([], [], [], []) of
             Inl e \<Rightarrow> Inl e
           | Inr (covered, partially_covered, missing, scores) \<Rightarrow>
               let n_clauses = length scores;
                   percentage =
                     (if 0 < n_clauses
                      then py_round2 (sum_list scores / of_nat n_clauses * 100)
                      else 0);
                   article_band =
                     (if 75 \<le> percentage then ''Full''
                      else if 40 \<le> percentage then ''Partial''
                      else ''Missing'')
               in Inr \<lparr> band = Some article_band, coverage_type = None,
                        coverage_percentage = percentage,
                        covered_clauses = map Judged covered,
                        partially_covered_clauses = Some (map Judged partially_covered),
                        missing_clauses = map Judged missing,
                        total_clauses = n_clauses,
                        covered_clauses_count = length covered,
                        partially_covered_clauses_count = Some (length partially_covered),
                        missing_clauses_count = length missing,
                        article_id = artid, article_number = artnum \<rparr>)"

text \<open>
  Notions used to state the properties of the scorer: the clause judgments of a returned
  record, a judge whose scores lie between 0 and 1 (as the scores of \<^verbatim>\<open>llm_clause_match\<close>
  do, which clamps the parsed score to 0..100 and divides by 100), and the invariant of
  the loop over the clauses, relative to a property \<open>G\<close> of the coverage and the method
  of every clause scored.
\<close>

definition judgments :: "clause_entry list \<Rightarrow> clause_info list" where
  "judgments es = concat (map (\<lambda>e. case e of Judged j \<Rightarrow> [j] | Whole a \<Rightarrow> []) es)"

definition clause_judgments :: "coverage_info \<Rightarrow> clause_info list" where
  "clause_judgments r =
     judgments (covered_clauses r)
     @ judgments (case partially_covered_clauses r of None \<Rightarrow> [] | Some ps \<Rightarrow> ps)
     @ judgments (missing_clauses r)"

definition judge_scores_in_unit :: "judge option \<Rightarrow> bool" where
  "judge_scores_in_unit func =
     (\<forall>f ct pt n l res. func = Some f \<longrightarrow> f ct pt n l = Some res \<longrightarrow>
        0 \<le> score res \<and> score res \<le> 1)"

definition judged_by :: "(rat \<Rightarrow> string \<Rightarrow> bool) \<Rightarrow> clause_info \<Rightarrow> bool" where
  "judged_by G j =
     (\<exists>c. G c (matching_method j) \<and> coverage_score j = py_round2 (c * 100))"

definition state_ok :: "(rat \<Rightarrow> string \<Rightarrow> bool) \<Rightarrow> loop_state \<Rightarrow> bool" where
  "state_ok G st =
     (case st of (covered, partially_covered, missing, scores) \<Rightarrow>
        (\<forall>j \<in> set covered. 75 \<le> coverage_score j \<and> judged_by G j) \<and>
        (\<forall>j \<in> set partially_covered.
           40 \<le> coverage_score j \<and> coverage_score j < 75 \<and> judged_by G j) \<and>
        (\<forall>j \<in> set missing. coverage_score j < 40 \<and> judged_by G j) \<and>
        (\<forall>x \<in> set scores. \<exists>m. G x m) \<and>
        length scores = length covered + length partially_covered + length missing)"

text \<open>
  What holds of every record the scorer returns, relative to \<open>G\<close>: the band follows the
  percentage, every clause judgment sits in the list of its score and was scored in
  accordance with \<open>G\<close>, and the percentage is 0 with nothing scored or comes from a
  coverage in accordance with \<open>G\<close>.
\<close>

definition record_ok :: "(rat \<Rightarrow> string \<Rightarrow> bool) \<Rightarrow> coverage_info \<Rightarrow> bool" where
  "record_ok G r =
     (let p = coverage_percentage r
      in (\<forall>b. band r = Some b \<longrightarrow>
            b = (if 75 \<le> p then ''Full'' else if 40 \<le> p then ''Partial'' else ''Missing'')) \<and>
         (\<forall>t. coverage_type r = Some t \<longrightarrow>
            t = (if 75 \<le> p then ''covered'' else if 40 \<le> p then ''partially_covered''
                 else ''missing'')) \<and>
         (band r \<noteq> None \<or> coverage_type r \<noteq> None) \<and>
         (\<forall>j \<in> set (judgments (covered_clauses r)). 75 \<le> coverage_score j \<and> judged_by G j) \<and>
         (\<forall>j \<in> set (judgments (case partially_covered_clauses r of None \<Rightarrow> [] | Some ps \<Rightarrow> ps)).
            40 \<le> coverage_score j \<and> coverage_score j < 75 \<and> judged_by G j) \<and>
         (\<forall>j \<in> set (judgments (missing_clauses r)). coverage_score j < 40 \<and> judged_by G j) \<and>
         ((total_clauses r = 0 \<and> p = 0) \<or>
          (0 < total_clauses r \<and> (\<exists>c m. G c m \<and> p = py_round2 (c * 100)))))"

definition traditional_blend :: "rat \<Rightarrow> rat \<Rightarrow> rat" where
  "traditional_blend bm25_score e5_score =
     0.4 * (if 0 < bm25_score then min 1 (bm25_score / 10) else 0) + 0.6 * e5_score"

text \<open>
  Whether the scorer, when it has a judge, finds text to score in an article: for a main
  article the guard of the article-level path (the requirement text is not empty), for
  any other article, which is scored as its own single clause, the guard of the loop
  (the normalised text is not empty and is not the bare heading).
\<close>

definition has_text_to_score :: "article \<Rightarrow> bool" where
  "has_text_to_score article =
     (if is_main_article article then raw_article_text article (clauses article) \<noteq> []
      else (let clause_text = normalize_text (art_text article)
            in \<not> (clause_text = [] \<or> clause_text = ''article''
                   \<or> clause_text = ''article '' @ format_int (art_number article))))"

section \<open>LLM re-ranking (services/llm\_service.py, llm\_rerank\_articles)\<close>

text \<open>
  A retrieval candidate is a dictionary. Hybrid retrieval creates it with the keys
  \<^verbatim>\<open>article\<close>, \<^verbatim>\<open>bm25_score\<close>, \<^verbatim>\<open>e5_similarity\<close> and \<^verbatim>\<open>similarity\<close>; re-ranking adds
  \<^verbatim>\<open>llm_relevance_score\<close> and \<^verbatim>\<open>final_score\<close>. A key that is absent is \<open>None\<close>.
\<close>

record candidate =
  cand_article :: article
  cand_bm25_score :: "rat option"
  e5_similarity :: "rat option"
  similarity :: "rat option"
  llm_relevance_score :: "rat option"
  final_score :: "rat option"

text \<open>\<^verbatim>\<open>cand.get("e5_similarity", cand.get("similarity", d))\<close>\<close>

definition embedding_or :: "rat \<Rightarrow> candidate \<Rightarrow> rat" where
  "embedding_or d cand =
     (case e5_similarity cand of
        Some e \<Rightarrow> e
      | None \<Rightarrow> (case similarity cand of Some s \<Rightarrow> s | None \<Rightarrow> d))"

text \<open>\<^verbatim>\<open>x.get("final_score", 0)\<close>, the key of the sort.\<close>

definition get_final_score :: "candidate \<Rightarrow> rat" where
  "get_final_score cand = (case final_score cand of None \<Rightarrow> 0 | Some s \<Rightarrow> s)"

text \<open>The body of the loop over \<^verbatim>\<open>enumerate(candidates_to_rank)\<close>.\<close>

definition apply_llm_score :: "rat list \<Rightarrow> nat \<times> candidate \<Rightarrow> candidate" where
  "apply_llm_score scores ic =
     (case ic of (i, cand) \<Rightarrow>
        if i < length scores then
          let relevance = scores ! i / 100;
              e5_score = embedding_or 0.5 cand
          in cand\<lparr> llm_relevance_score := Some relevance,
                   final_score := Some (0.7 * relevance + 0.3 * e5_score) \<rparr>
        else cand\<lparr> final_score := Some (embedding_or 0 cand) \<rparr>)"

text \<open>The body of the loop over the candidates beyond the first fifty.\<close>

definition keep_embedding_score :: "candidate \<Rightarrow> candidate" where
  "keep_embedding_score cand = cand\<lparr> final_score := Some (embedding_or 0 cand) \<rparr>"

text \<open>
  \<^verbatim>\<open>llm_rerank_articles\<close>. The language model is outside the model: \<open>llm_available\<close>
  says whether the model is enabled and has a client, and \<open>parsed\<close> is what the call and
  the parsing of its reply yield, \<open>None\<close> when the call raises and otherwise the list
  \<^verbatim>\<open>scores\<close> (empty when nothing could be parsed). \<^verbatim>\<open>top_k\<close> is a natural number.
  \<^verbatim>\<open>list.sort(reverse=True)\<close> is stable: candidates with equal keys keep their order.
\<close>

definition llm_rerank_articles ::
  "bool \<Rightarrow> rat list option \<Rightarrow> candidate list \<Rightarrow> nat \<Rightarrow> candidate list" where
  "llm_rerank_articles llm_available parsed candidates top_k =
     (if \<not> llm_available then take top_k candidates
      else if candidates = [] then []
      else
        case parsed of
          None \<Rightarrow> take top_k candidates
        | Some scores \<Rightarrow>
            if scores = [] then take top_k candidates
            else
              let candidates_to_rank =
                    map (apply_llm_score scores)
                      (enumerate 0 (take (min 50 (length candidates)) candidates));
                  ranked = sort_key (\<lambda>x. - get_final_score x) candidates_to_rank;
                  remaining =
                    map keep_embedding_score (drop (length candidates_to_rank) candidates);
                  all_results = ranked @ remaining
              in take top_k all_results)"

text \<open>
  The candidate at position \<open>i\<close> as the two loops of the re-ranking leave it: the first
  fifty candidates go through the loop that applies the scores, the others through the
  loop that keeps the embedding score.
\<close>

definition rescored :: "rat list \<Rightarrow> candidate list \<Rightarrow> nat \<Rightarrow> candidate" where
  "rescored scores candidates i =
     (if i < min 50 (length candidates) then apply_llm_score scores (i, candidates ! i)
      else keep_embedding_score (candidates ! i))"

section \<open>Matching (services/matching\_service.py, match\_with\_pdpl)\<close>

text \<open>
  A match is a dictionary with the key \<^verbatim>\<open>article\<close>; hybrid retrieval adds
  \<^verbatim>\<open>similarity\<close>, \<^verbatim>\<open>bm25_score\<close> and \<^verbatim>\<open>e5_score\<close>, text matching adds \<^verbatim>\<open>similarity\<close>.
  A key that is absent is \<open>None\<close>.
\<close>

record retrieval_match =
  rm_article :: article
  rm_similarity :: "rat option"
  rm_bm25_score :: "rat option"
  rm_e5_score :: "rat option"
  rm_e5_similarity :: "rat option"

definition MINIMUM_SIMILARITY :: rat where
  "MINIMUM_SIMILARITY = 0.70"

text \<open>
  The key that identifies a match: \<^verbatim>\<open>(article.get("id") or article.get("article_id"),
  article.get("article_number"))\<close>. No dictionary of the loader has the key
  \<^verbatim>\<open>article_id\<close>, so the first component is the \<^verbatim>\<open>id\<close> when it is not empty and
  \<^verbatim>\<open>None\<close> otherwise.
\<close>

definition match_key :: "retrieval_match \<Rightarrow> string option \<times> int" where
  "match_key m =
     (let article = rm_article m
      in (if art_id article \<noteq> [] then Some (art_id article) else None, art_number article))"

text \<open>The loop over the semantic matches; its state is \<^verbatim>\<open>seen_keys\<close> and \<^verbatim>\<open>combined_matches\<close>.\<close>

fun add_semantic_matches ::
  "retrieval_match list \<Rightarrow> (string option \<times> int) set \<times> retrieval_match list \<Rightarrow>
   (string option \<times> int) set \<times> retrieval_match list" where
  "add_semantic_matches [] st = st"
| "add_semantic_matches (m # ms) (seen_keys, combined) =
     (let sim = (case rm_similarity m of None \<Rightarrow> 0 | Some s \<Rightarrow> s)
      in if sim < MINIMUM_SIMILARITY then add_semantic_matches ms (seen_keys, combined)
         else if match_key m \<notin> seen_keys
         then add_semantic_matches ms (insert (match_key m) seen_keys, combined @ [m])
         else add_semantic_matches ms (seen_keys, combined))"

text \<open>
  The loop over the text matches. \<^verbatim>\<open>match["similarity"]\<close> raises \<^verbatim>\<open>KeyError\<close> when the
  key is absent; it is read only for a key not yet seen.
\<close>

fun add_text_matches ::
  "rat \<Rightarrow> retrieval_match list \<Rightarrow> (string option \<times> int) set \<times> retrieval_match list \<Rightarrow>
   error + (string option \<times> int) set \<times> retrieval_match list" where
  "add_text_matches threshold [] st = Inr st"
| "add_text_matches threshold (m # ms) (seen_keys, combined) =
     (if match_key m \<notin> seen_keys then
        (case rm_similarity m of
           None \<Rightarrow> Inl (KeyError ''similarity'')
         | Some s \<Rightarrow>
             if threshold \<le> s
             then add_text_matches threshold ms (insert (match_key m) seen_keys, combined @ [m])
             else add_text_matches threshold ms (seen_keys, combined))
      else add_text_matches threshold ms (seen_keys, combined))"

text \<open>
  The matches \<^verbatim>\<open>match_with_pdpl\<close> goes on to score. The results of hybrid retrieval and
  of text matching, which need the indexes and the embedding model, are arguments.
\<close>

definition combined_matches ::
  "retrieval_match list \<Rightarrow> retrieval_match list \<Rightarrow> rat \<Rightarrow> bool \<Rightarrow>
   error + retrieval_match list" where
  "combined_matches semantic_matches text_matches_arg threshold use_text_fallback =
     (let text_matches = (if use_text_fallback then text_matches_arg else []);
          st = add_semantic_matches semantic_matches ({}, [])
      in if use_text_fallback
         then (case add_text_matches threshold text_matches st of
                 Inl e \<Rightarrow> Inl e
               | Inr (seen_keys, combined) \<Rightarrow> Inr combined)
         else Inr (snd st))"

text \<open>
  The coverage of every combined match, in order; the first exception ends the loop.
  \<^verbatim>\<open>match.update(coverage_info)\<close> is the pair of the match and its coverage record.
\<close>

fun score_matches ::
  "bool \<Rightarrow> judge \<Rightarrow> string list \<Rightarrow> retrieval_match list \<Rightarrow>
   error + (retrieval_match \<times> coverage_info) list" where
  "score_matches llm_only_mode llm_clause_match extracted_text [] = Inr []"
| "score_matches llm_only_mode llm_clause_match extracted_text (m # ms) =
     (let bm25_score = (case rm_bm25_score m of None \<Rightarrow> 0 | Some b \<Rightarrow> b);
          e5_score = (case rm_e5_score m of
                        Some e \<Rightarrow> e
                      | None \<Rightarrow> (case rm_e5_similarity m of None \<Rightarrow> 0 | Some e \<Rightarrow> e))
      in case calculate_article_coverage llm_only_mode (rm_article m) extracted_text
                (Some llm_clause_match) bm25_score e5_score of
           Inl e \<Rightarrow> Inl e
         | Inr coverage \<Rightarrow>
             (case score_matches llm_only_mode llm_clause_match extracted_text ms of
                Inl e \<Rightarrow> Inl e
              | Inr rest \<Rightarrow> Inr ((m, coverage) # rest)))"

definition match_with_pdpl ::
  "bool \<Rightarrow> judge \<Rightarrow> string list \<Rightarrow> retrieval_match list \<Rightarrow> retrieval_match list \<Rightarrow>
   rat \<Rightarrow> bool \<Rightarrow> error + (retrieval_match \<times> coverage_info) list" where
  "match_with_pdpl llm_only_mode llm_clause_match extracted_text semantic_matches
     text_matches threshold use_text_fallback =
     (case combined_matches semantic_matches text_matches threshold use_text_fallback of
        Inl e \<Rightarrow> Inl e
      | Inr combined \<Rightarrow>
          (case score_matches llm_only_mode llm_clause_match extracted_text combined of
             Inl e \<Rightarrow> Inl e
           | Inr scored \<Rightarrow>
               Inr (sort_key (\<lambda>(m, coverage). - coverage_percentage coverage) scored)))"

section \<open>Properties of the text normalizer\<close>

text \<open>
  C2. The claim is that \<open>normalize_text\<close> is idempotent. The source collapses whitespace
  before it deletes punctuation, so a punctuation mark standing between two spaces leaves
  two adjacent spaces behind, which a second pass collapses: on the input \<open>a , b\<close> the
  first pass gives \<open>a  b\<close> (two spaces) and the second pass gives \<open>a b\<close>.
\<close>

theorem normalize_text_not_idempotent:
  "normalize_text ''a , b'' = ''a  b'' \<and>
   normalize_text (normalize_text ''a , b'') = ''a b'' \<and>
   normalize_text (normalize_text ''a , b'') \<noteq> normalize_text ''a , b''"
  by code_simp

section \<open>Properties of rounding\<close>


lemma py_round2_lower:
  assumes "of_int k \<le> x * 100"
  shows "of_int k / 100 \<le> py_round2 x"
proof -
  have "k \<le> \<lfloor>x * 100\<rfloor>" using assms by (simp add: le_floor_iff)
  then have "(of_int k :: rat) \<le> of_int \<lfloor>x * 100\<rfloor>" by simp
  then show ?thesis
    by (simp add: py_round2_def Let_def divide_le_cancel)
qed

lemma py_round2_upper:
  assumes "x * 100 \<le> of_int k"
  shows "py_round2 x \<le> of_int k / 100"
proof -
  let ?y = "x * 100"
  have fk: "\<lfloor>?y\<rfloor> \<le> k" using assms by (simp add: floor_le_iff)
  show ?thesis
  proof (cases "?y - of_int \<lfloor>?y\<rfloor> < 1 / 2")
    case True
    then show ?thesis using fk by (simp add: py_round2_def Let_def divide_le_cancel)
  next
    case False
    then have "of_int \<lfloor>?y\<rfloor> < ?y" by linarith
    then have "(of_int \<lfloor>?y\<rfloor> :: rat) < of_int k" using assms by linarith
    then have "\<lfloor>?y\<rfloor> + 1 \<le> k" by simp
    then have "(of_int \<lfloor>?y\<rfloor> :: rat) + 1 \<le> of_int k" 
      by (metis of_int_1 of_int_add of_int_le_iff)
    moreover have "(of_int \<lfloor>?y\<rfloor> :: rat) \<le> of_int k" using fk by simp
    ultimately show ?thesis by (simp add: py_round2_def Let_def divide_le_cancel)
  qed
qed

section \<open>Properties of the aggregator\<close>

lemma included_nonempty: "INCLUDED_ARTICLES_FOR_OVERALL \<noteq> {}"
  by (simp add: INCLUDED_ARTICLES_FOR_OVERALL_def)











text \<open>
  C9. For an empty list of matches the code returns a report with overall score 0 and
  every counted scope article missing, but with the compliance level \<open>Critical\<close>, which
  is not a level of the mapping the claim names (\<open>not_compliant\<close> below 40).
\<close>

theorem empty_matches_level_is_Critical:
  "map_sum id (\<lambda>r. (overall_score r, compliance_level r, missing_articles r))
     (calculate_overall_score [] t (Some scope))
   = Inr (0, ''Critical'', effective_scope scope)"
  by (simp add: calculate_overall_score_def included_nonempty effective_scope_def Let_def)

section \<open>Properties of the coverage scorer\<close>

lemma judgments_map_Judged: "judgments (map Judged xs) = xs"
  by (induction xs) (simp_all add: judgments_def)

lemma judgments_simps:
  "judgments [] = []"
  "judgments (Judged j # es) = j # judgments es"
  "judgments (Whole a # es) = judgments es"
  by (simp_all add: judgments_def)

lemma percentage_bounds:
  assumes "0 \<le> c" and "c \<le> 1"
  shows "0 \<le> py_round2 (c * 100) \<and> py_round2 (c * 100) \<le> 100"
proof -
  have "of_int 0 \<le> c * 100 * 100" using assms by simp
  from py_round2_lower [OF this] have lo: "0 \<le> py_round2 (c * 100)" by simp
  have "c * 100 * 100 \<le> of_int 10000" using assms by simp
  from py_round2_upper [OF this] have "py_round2 (c * 100) \<le> 100" by simp
  with lo show ?thesis by simp
qed

lemma traditional_clause_match_eq:
  "traditional_clause_match ct ftn bm25 e5 =
     (traditional_blend bm25 e5, None, None, ''traditional_bm25_e5'')"
  by (simp add: traditional_clause_match_def traditional_blend_def Let_def)

lemma traditional_bounds:
  assumes "0 \<le> e5" and "e5 \<le> 1"
  shows "0 \<le> traditional_blend bm25 e5 \<and> traditional_blend bm25 e5 \<le> 1"
proof -
  define b where "b = (if 0 < bm25 then min 1 (bm25 / 10) else 0)"
  have "0 \<le> b \<and> b \<le> 1" by (auto simp: b_def min_def)
  then show ?thesis
    unfolding traditional_blend_def b_def [symmetric] using assms by simp
qed

lemma clause_coverage_bounds:
  assumes "judge_scores_in_unit func" and "0 \<le> e5" and "e5 \<le> 1"
    and "clause_coverage mode func ft ftn n bm25 e5 clause = Inr (c, e, k, m)"
  shows "0 \<le> c \<and> c \<le> 1"
  using assms(1,4) traditional_bounds [OF assms(2,3), of bm25]
  by (auto simp: clause_coverage_def judge_scores_in_unit_def traditional_clause_match_eq
        Let_def split: if_splits option.splits)

lemma state_ok_step:
  assumes "state_ok G (covered, partially_covered, missing, scores)"
    and "G c m" and "cs = py_round2 (c * 100)"
    and "coverage_score info = cs" and "matching_method info = m"
  shows "75 \<le> cs \<Longrightarrow> state_ok G (covered @ [info], partially_covered, missing, scores @ [c])"
    and "\<not> 75 \<le> cs \<Longrightarrow> 40 \<le> cs \<Longrightarrow>
         state_ok G (covered, partially_covered @ [info\<lparr>ci_band := b\<rparr>], missing, scores @ [c])"
    and "\<not> 75 \<le> cs \<Longrightarrow> \<not> 40 \<le> cs \<Longrightarrow>
         state_ok G (covered, partially_covered, missing @ [info], scores @ [c])"
  using assms by (auto simp: state_ok_def judged_by_def)

lemma score_clauses_state_ok:
  assumes "score_clauses mode func ft ftn n bm25 e5 cls st = Inr st'"
    and "\<And>clause c e k m. clause \<in> set cls \<Longrightarrow>
           clause_coverage mode func ft ftn n bm25 e5 clause = Inr (c, e, k, m) \<Longrightarrow> G c m"
    and "state_ok G st"
  shows "state_ok G st'"
  using assms
proof (induction cls arbitrary: st)
  case Nil
  then show ?case by simp
next
  case (Cons clause rest)
  obtain covered partially_covered missing scores
    where st: "st = (covered, partially_covered, missing, scores)"
    by (cases st) auto
  have G: "\<And>cl c e k m. cl \<in> set rest \<Longrightarrow>
           clause_coverage mode func ft ftn n bm25 e5 cl = Inr (c, e, k, m) \<Longrightarrow> G c m"
    using Cons.prems(2) by (meson list.set_intros(2))
  let ?skip = "normalize_text (art_text clause) = [] \<or> normalize_text (art_text clause) = ''article''
            \<or> normalize_text (art_text clause) = ''article '' @ format_int n"
  show ?case
  proof (cases ?skip)
    case True
    then have "score_clauses mode func ft ftn n bm25 e5 rest st = Inr st'"
      using Cons.prems(1) unfolding st by (simp add: Let_def)
    from Cons.IH [OF this G Cons.prems(3)] show ?thesis .
  next
    case False
    show ?thesis
    proof (cases "clause_coverage mode func ft ftn n bm25 e5 clause")
      case (Inl err)
      then show ?thesis using Cons.prems(1) False unfolding st by (simp add: Let_def)
    next
      case (Inr res)
      obtain c e k m where res: "res = (c, e, k, m)" by (cases res) auto
      have Gc: "G c m" using Cons.prems(2) [of clause c e k m] Inr res by simp
      define info where "info = \<lparr> ci_id = art_id clause,
                            ci_article_number = n,
                            ci_label = art_label clause,
                            ci_path = art_path clause,
                            ci_text = text_preview (art_text clause),
                            coverage_score = py_round2 (c * 100),
                            matching_method = m,
                            llm_explanation = if_truthy e,
                            llm_confidence = if_truthy k,
                            ci_band = None \<rparr>"
      have i: "coverage_score info = py_round2 (c * 100)" "matching_method info = m"
        by (simp_all add: info_def)
      have ok: "state_ok G (covered, partially_covered, missing, scores)"
        using Cons.prems(3) st by simp
      note steps = state_ok_step [OF ok Gc refl i]
      consider (a) "75 \<le> py_round2 (c * 100)"
        | (b) "\<not> 75 \<le> py_round2 (c * 100)" "40 \<le> py_round2 (c * 100)"
        | (c) "\<not> 75 \<le> py_round2 (c * 100)" "\<not> 40 \<le> py_round2 (c * 100)"
        by blast
      then show ?thesis
      proof cases
        case a
        then have "score_clauses mode func ft ftn n bm25 e5 rest
                     (covered @ [info], partially_covered, missing, scores @ [c]) = Inr st'"
          using Cons.prems(1) False Inr res unfolding st info_def by (simp add: Let_def)
        from Cons.IH [OF this G steps(1) [OF a]] show ?thesis .
      next
        case b
        then have "score_clauses mode func ft ftn n bm25 e5 rest
                     (covered, partially_covered @ [info\<lparr>ci_band := Some ''Partial''\<rparr>],
                      missing, scores @ [c]) = Inr st'"
          using Cons.prems(1) False Inr res unfolding st info_def by (simp add: Let_def)
        from Cons.IH [OF this G steps(2) [OF b]] show ?thesis .
      next
        case c
        then have "score_clauses mode func ft ftn n bm25 e5 rest
                     (covered, partially_covered, missing @ [info], scores @ [c]) = Inr st'"
          using Cons.prems(1) False Inr res unfolding st info_def by (simp add: Let_def)
        from Cons.IH [OF this G steps(3) [OF c]] show ?thesis .
      qed
    qed
  qed
qed

lemma state_ok_init: "state_ok G ([], [], [], [])"
  by (simp add: state_ok_def)

lemma clause_coverage_G:
  assumes judge: "\<And>f ct pt n l res. func = Some f \<Longrightarrow> f ct pt n l = Some res \<Longrightarrow>
                    G (score res) ''llm_only_scoring''"
    and trad: "G (traditional_blend bm25 e5) ''traditional_bm25_e5''"
    and "clause_coverage mode func ft ftn n bm25 e5 clause = Inr (c, e, k, m)"
  shows "G c m"
  using assms(3) judge trad
  by (auto simp: clause_coverage_def traditional_clause_match_eq Let_def
        split: if_splits option.splits)

lemma article_level_record_ok:
  assumes r: "calculate_article_coverage_llm_article_level mode article ft ftn n aid cls func
                bm25 e5 = Inr r"
    and judge: "\<And>f ct pt n l res. func = Some f \<Longrightarrow> f ct pt n l = Some res \<Longrightarrow>
                    G (score res) ''llm_only_scoring_article''"
    and trad: "G (traditional_blend bm25 e5) ''traditional_bm25_e5''"
  shows "record_ok G r"
proof (cases "raw_article_text article cls = []")
  case True
  then have "r = \<lparr> band = Some ''Missing'', coverage_type = None, coverage_percentage = 0,
                 covered_clauses = [], partially_covered_clauses = Some [],
                 missing_clauses = [], total_clauses = 0, covered_clauses_count = 0,
                 partially_covered_clauses_count = Some 0, missing_clauses_count = 0,
                 article_id = aid, article_number = n \<rparr>"
    using r by (simp add: calculate_article_coverage_llm_article_level_def Let_def)
  then show ?thesis by (simp add: record_ok_def judgments_simps)
next
  case False
  define outcome where "outcome =
     (case (case func of None \<Rightarrow> None
            | Some f \<Rightarrow> f (raw_article_text article cls) ft n ''Article-level'') of
        Some res \<Rightarrow>
          Inr (score res, Some (explanation res), Some (confidence res),
               ''llm_only_scoring_article'')
      | None \<Rightarrow>
          if mode then Inl (LLM_failed_for_article n)
          else (case traditional_clause_match (normalize_text (raw_article_text article cls))
                       ftn bm25 e5 of
                  (traditional_score, _, _, method) \<Rightarrow>
                    Inr (traditional_score, None, None, method)))"
  have r': "(case outcome of
              Inl e \<Rightarrow> Inl e
            | Inr (article_coverage, explanation_opt, confidence_opt, method) \<Rightarrow>
                  let percentage = py_round2 (article_coverage * 100);
                      article_band =
                        (if 75 \<le> percentage then ''Full''
                         else if 40 \<le> percentage then ''Partial''
                         else ''Missing'');
                      info = \<lparr> ci_id = aid,
                               ci_article_number = n,
                               ci_label = (if art_title article \<noteq> [] then art_title article
                                           else ''Article '' @ format_int n),
                               ci_path = art_path article,
                               ci_text = text_preview (raw_article_text article cls),
                               coverage_score = percentage,
                               matching_method = method,
                               llm_explanation = if_truthy explanation_opt,
                               llm_confidence = if_truthy confidence_opt,
                               ci_band = None \<rparr>;
                      covered = (if 75 \<le> percentage then [Judged info] else []);
                      partially_covered =
                        (if 75 \<le> percentage then []
                         else if 40 \<le> percentage
                         then [Judged (info\<lparr>ci_band := Some ''Partial''\<rparr>)]
                         else []);
                      missing =
                        (if 75 \<le> percentage then []
                         else if 40 \<le> percentage then []
                         else [Judged info])
                  in Inr \<lparr> band = Some article_band, coverage_type = None,
                           coverage_percentage = percentage,
                           covered_clauses = covered,
                           partially_covered_clauses = Some partially_covered,
                           missing_clauses = missing,
                           total_clauses = 1,
                           covered_clauses_count = length covered,
                           partially_covered_clauses_count = Some (length partially_covered),
                           missing_clauses_count = length missing,
                           article_id = aid, article_number = n \<rparr>) = Inr r"
    using r False
    unfolding calculate_article_coverage_llm_article_level_def outcome_def Let_def
    by simp
  then obtain c e k m where out: "outcome = Inr (c, e, k, m)"
    by (cases outcome) auto
  have G: "G c m"
    using out judge trad
    unfolding outcome_def
    by (auto simp: traditional_clause_match_eq split: option.splits if_splits)
  show ?thesis
    using r' G unfolding out
    by (auto simp: record_ok_def judged_by_def judgments_simps Let_def)
qed


lemma calculate_article_coverage_article_level:
  assumes "func \<noteq> None" and "is_main_article article"
  shows "calculate_article_coverage mode article pages func bm25 e5 =
         calculate_article_coverage_llm_article_level mode article (join_space pages)
           (normalize_text (join_space pages)) (art_number article) (art_id article)
           (clauses article) func bm25 e5"
  using assms by (simp add: calculate_article_coverage_def Let_def)

lemma calculate_article_coverage_no_clauses:
  assumes "\<not> (func \<noteq> None \<and> is_main_article article)"
    and "(if is_main_article article then clauses article else [article]) = []"
  shows "calculate_article_coverage mode article pages func bm25 e5 =
         (let percentage = py_round2 (traditional_blend bm25 e5 * 100);
              ctype =
                (if 75 \<le> percentage then ''covered''
                 else if 40 \<le> percentage then ''partially_covered''
                 else ''missing'')
          in Inr \<lparr> band = None, coverage_type = Some ctype,
                   coverage_percentage = percentage,
                   covered_clauses = (if percentage < 40 then [] else [Whole article]),
                   partially_covered_clauses = None,
                   missing_clauses = (if percentage < 40 then [Whole article] else []),
                   total_clauses = 1,
                   covered_clauses_count = (if 40 \<le> percentage then 1 else 0),
                   partially_covered_clauses_count = None,
                   missing_clauses_count = (if 40 \<le> percentage then 0 else 1),
                   article_id = art_id article, article_number = art_number article \<rparr>)"
proof -
  have c: "(func \<noteq> None \<and> is_main_article article) = False" using assms(1) by simp
  show ?thesis
    unfolding calculate_article_coverage_def Let_def c assms(2) traditional_blend_def
    by simp
qed

lemma calculate_article_coverage_loop:
  assumes "\<not> (func \<noteq> None \<and> is_main_article article)"
    and "(if is_main_article article then clauses article else [article]) \<noteq> []"
  shows "calculate_article_coverage mode article pages func bm25 e5 =
         (case score_clauses mode func (join_space pages) (normalize_text (join_space pages))
                 (art_number article) bm25 e5
                 (if is_main_article article then clauses article else [article])
                 ([], [], [], []) of
             Inl e \<Rightarrow> Inl e
           | Inr (covered, partially_covered, missing, scores) \<Rightarrow>
               let n_clauses = length scores;
                   percentage =
                     (if 0 < n_clauses
                      then py_round2 (sum_list scores / of_nat n_clauses * 100)
                      else 0);
                   article_band =
                     (if 75 \<le> percentage then ''Full''
                      else if 40 \<le> percentage then ''Partial''
                      else ''Missing'')
               in Inr \<lparr> band = Some article_band, coverage_type = None,
                        coverage_percentage = percentage,
                        covered_clauses = map Judged covered,
                        partially_covered_clauses = Some (map Judged partially_covered),
                        missing_clauses = map Judged missing,
                        total_clauses = n_clauses,
                        covered_clauses_count = length covered,
                        partially_covered_clauses_count = Some (length partially_covered),
                        missing_clauses_count = length missing,
                        article_id = art_id article, article_number = art_number article \<rparr>)"
proof -
  have c: "(func \<noteq> None \<and> is_main_article article) = False" using assms(1) by simp
  have d: "((if is_main_article article then clauses article else [article]) = []) = False"
    using assms(2) by simp
  show ?thesis
    unfolding calculate_article_coverage_def Let_def c d by simp
qed

lemma coverage_record_ok:
  assumes r: "calculate_article_coverage mode article pages func bm25 e5 = Inr r"
    and judge: "\<And>f ct pt n l res. func = Some f \<Longrightarrow> f ct pt n l = Some res \<Longrightarrow>
                  G (score res) ''llm_only_scoring'' \<and> G (score res) ''llm_only_scoring_article''"
    and trad: "G (traditional_blend bm25 e5) ''traditional_bm25_e5''"
    and avg: "\<And>xs. xs \<noteq> [] \<Longrightarrow> \<forall>x \<in> set xs. \<exists>m. G x m \<Longrightarrow>
                \<exists>m. G (sum_list xs / of_nat (length xs)) m"
  shows "record_ok G r"
proof -
  define cls where "cls = (if is_main_article article then clauses article else [article])"
  consider (article_level) "func \<noteq> None \<and> is_main_article article"
    | (no_clauses) "\<not> (func \<noteq> None \<and> is_main_article article)" "cls = []"
    | (loop) "\<not> (func \<noteq> None \<and> is_main_article article)" "cls \<noteq> []"
    by blast
  then show ?thesis
  proof cases
    case article_level
    then have "calculate_article_coverage_llm_article_level mode article (join_space pages)
                 (normalize_text (join_space pages)) (art_number article) (art_id article)
                 (clauses article) func bm25 e5 = Inr r"
      using r calculate_article_coverage_article_level [of func article mode pages bm25 e5]
      by simp
    then show ?thesis
    proof (rule article_level_record_ok)
      show "G (score res) ''llm_only_scoring_article''"
        if "func = Some f" and "f ct pt n l = Some res" for f ct pt n l res
        using judge [OF that] by simp
      show "G (traditional_blend bm25 e5) ''traditional_bm25_e5''" by (rule trad)
    qed
  next
    case no_clauses
    from calculate_article_coverage_no_clauses [OF no_clauses [unfolded cls_def], of mode pages bm25 e5] r
    have "r = (let percentage = py_round2 (traditional_blend bm25 e5 * 100);
               ctype =
                 (if 75 \<le> percentage then ''covered''
                  else if 40 \<le> percentage then ''partially_covered''
                  else ''missing'')
           in \<lparr> band = None, coverage_type = Some ctype,
                    coverage_percentage = percentage,
                    covered_clauses = (if percentage < 40 then [] else [Whole article]),
                    partially_covered_clauses = None,
                    missing_clauses = (if percentage < 40 then [Whole article] else []),
                    total_clauses = 1,
                    covered_clauses_count = (if 40 \<le> percentage then 1 else 0),
                    partially_covered_clauses_count = None,
                    missing_clauses_count = (if 40 \<le> percentage then 0 else 1),
                    article_id = art_id article, article_number = art_number article \<rparr>)"
      by (simp add: Let_def)
    then show ?thesis
      using trad by (auto simp: record_ok_def judgments_simps Let_def)
  next
    case loop
    define res where "res = score_clauses mode func (join_space pages)
        (normalize_text (join_space pages)) (art_number article) bm25 e5 cls ([], [], [], [])"
    have r': "(case res of
             Inl e \<Rightarrow> Inl e
           | Inr (covered, partially_covered, missing, scores) \<Rightarrow>
               let n_clauses = length scores;
                   percentage =
                     (if 0 < n_clauses
                      then py_round2 (sum_list scores / of_nat n_clauses * 100)
                      else 0);
                   article_band =
                     (if 75 \<le> percentage then ''Full''
                      else if 40 \<le> percentage then ''Partial''
                      else ''Missing'')
               in Inr \<lparr> band = Some article_band, coverage_type = None,
                        coverage_percentage = percentage,
                        covered_clauses = map Judged covered,
                        partially_covered_clauses = Some (map Judged partially_covered),
                        missing_clauses = map Judged missing,
                        total_clauses = n_clauses,
                        covered_clauses_count = length covered,
                        partially_covered_clauses_count = Some (length partially_covered),
                        missing_clauses_count = length missing,
                        article_id = art_id article, article_number = art_number article \<rparr>)
           = Inr r"
      using r calculate_article_coverage_loop [OF loop [unfolded cls_def], of mode pages bm25 e5]
      unfolding cls_def res_def by simp
    then obtain covered partially_covered missing scores
      where res_eq: "res = Inr (covered, partially_covered, missing, scores)"
      by (cases res) auto
    have step: "\<And>clause c e k m. clause \<in> set cls \<Longrightarrow>
           clause_coverage mode func (join_space pages) (normalize_text (join_space pages))
             (art_number article) bm25 e5 clause = Inr (c, e, k, m) \<Longrightarrow> G c m"
    proof -
      fix clause c e k m
      assume "clause_coverage mode func (join_space pages) (normalize_text (join_space pages))
             (art_number article) bm25 e5 clause = Inr (c, e, k, m)"
      then show "G c m"
      proof (rule clause_coverage_G [rotated 2])
        show "G (score res) ''llm_only_scoring''"
          if "func = Some f" and "f ct pt n l = Some res" for f ct pt n l res
          using judge [OF that] by simp
        show "G (traditional_blend bm25 e5) ''traditional_bm25_e5''" by (rule trad)
      qed
    qed
    have ok: "state_ok G (covered, partially_covered, missing, scores)"
      using score_clauses_state_ok [OF res_eq [unfolded res_def] step state_ok_init] .
    have sc: "\<forall>x \<in> set scores. \<exists>m. G x m"
      using ok by (simp add: state_ok_def)
    define p where "p = (if 0 < length scores
                         then py_round2 (sum_list scores / of_nat (length scores) * 100)
                         else 0)"
    have r_eq: "r = \<lparr> band = Some (if 75 \<le> p then ''Full''
                                    else if 40 \<le> p then ''Partial'' else ''Missing''),
                        coverage_type = None,
                        coverage_percentage = p,
                        covered_clauses = map Judged covered,
                        partially_covered_clauses = Some (map Judged partially_covered),
                        missing_clauses = map Judged missing,
                        total_clauses = length scores,
                        covered_clauses_count = length covered,
                        partially_covered_clauses_count = Some (length partially_covered),
                        missing_clauses_count = length missing,
                        article_id = art_id article, article_number = art_number article \<rparr>"
      using r' unfolding res_eq p_def by (simp add: Let_def)
    have lists:
      "\<forall>j \<in> set covered. 75 \<le> coverage_score j \<and> judged_by G j"
      "\<forall>j \<in> set partially_covered.
         40 \<le> coverage_score j \<and> coverage_score j < 75 \<and> judged_by G j"
      "\<forall>j \<in> set missing. coverage_score j < 40 \<and> judged_by G j"
      using ok by (simp_all add: state_ok_def)
    have pc: "(length scores = 0 \<and> p = 0) \<or>
              (0 < length scores \<and> (\<exists>c m. G c m \<and> p = py_round2 (c * 100)))"
    proof (cases "scores = []")
      case True
      then show ?thesis by (simp add: p_def)
    next
      case False
      from avg [OF False sc] obtain m
        where "G (sum_list scores / of_nat (length scores)) m" by blast
      then show ?thesis using False unfolding p_def by auto
    qed
    show ?thesis
      unfolding record_ok_def r_eq using lists pc
      by (simp add: judgments_map_Judged Let_def)
  qed
qed

lemma sum_list_unit_bounds:
  fixes xs :: "rat list"
  assumes "\<forall>x \<in> set xs. 0 \<le> x \<and> x \<le> 1"
  shows "0 \<le> sum_list xs \<and> sum_list xs \<le> of_nat (length xs)"
  using assms by (induction xs) auto

lemma average_unit_bounds:
  fixes xs :: "rat list"
  assumes "xs \<noteq> []" and "\<forall>x \<in> set xs. 0 \<le> x \<and> x \<le> 1"
  shows "0 \<le> sum_list xs / of_nat (length xs) \<and> sum_list xs / of_nat (length xs) \<le> 1"
proof -
  have n: "(0::rat) < of_nat (length xs)" using assms(1) by simp
  from sum_list_unit_bounds [OF assms(2)] n show ?thesis
    by (simp add: divide_le_eq)
qed

text \<open>
  Where a returned record has a band, the band follows the thresholds 75 and 40 on the
  coverage percentage, and so does the sorting of the clause judgments into the three
  lists; the same holds of the key \<open>coverage_type\<close> where a record has that instead.
\<close>

lemma band_follows_thresholds:
  assumes "calculate_article_coverage mode article pages func bm25 e5 = Inr r"
  shows "(\<forall>b. band r = Some b \<longrightarrow>
            (b = ''Full'' \<longleftrightarrow> 75 \<le> coverage_percentage r) \<and>
            (b = ''Partial'' \<longleftrightarrow> 40 \<le> coverage_percentage r \<and> coverage_percentage r < 75) \<and>
            (b = ''Missing'' \<longleftrightarrow> coverage_percentage r < 40)) \<and>
         (\<forall>t. coverage_type r = Some t \<longrightarrow>
            (t = ''covered'' \<longleftrightarrow> 75 \<le> coverage_percentage r) \<and>
            (t = ''partially_covered'' \<longleftrightarrow>
               40 \<le> coverage_percentage r \<and> coverage_percentage r < 75) \<and>
            (t = ''missing'' \<longleftrightarrow> coverage_percentage r < 40)) \<and>
         (band r \<noteq> None \<or> coverage_type r \<noteq> None) \<and>
         (\<forall>j \<in> set (clause_judgments r).
            (j \<in> set (judgments (covered_clauses r)) \<longleftrightarrow> 75 \<le> coverage_score j) \<and>
            (j \<in> set (judgments (case partially_covered_clauses r of
                                   None \<Rightarrow> [] | Some ps \<Rightarrow> ps))
               \<longleftrightarrow> 40 \<le> coverage_score j \<and> coverage_score j < 75) \<and>
            (j \<in> set (judgments (missing_clauses r)) \<longleftrightarrow> coverage_score j < 40))"
proof -
  have "record_ok (\<lambda>c m. True) r"
    using assms by (rule coverage_record_ok) simp_all
  then show ?thesis
    unfolding record_ok_def clause_judgments_def Let_def
    by (intro conjI) (auto split: if_splits)
qed

text \<open>
  C8. The claim fails on the branch for a main article without clauses, taken when no
  judge is given: at 68 percent the record has no band at all (only the key
  \<open>coverage_type\<close>, so that the aggregator, which reads the band with the default
  Missing, counts the article as Missing), and the article is filed under the covered
  clauses, with a count of 1, because that list is cut at 40 and not at 75. The loop
  over the clauses and the article-level path give the band Partial and file under the
  partially covered clauses at the same percentage.
\<close>

theorem no_clauses_branch_has_no_band:
  "calculate_article_coverage False
     (Article 4 ''PDPL:4'' True ''Lawful basis'' ''0'' [] ''4'' [])
     [''policy'', ''text''] None 5 (4 / 5)
   = Inr \<lparr> band = None, coverage_type = Some ''partially_covered'',
           coverage_percentage = 68,
           covered_clauses = [Whole (Article 4 ''PDPL:4'' True ''Lawful basis'' ''0'' [] ''4'' [])],
           partially_covered_clauses = None, missing_clauses = [],
           total_clauses = 1, covered_clauses_count = 1,
           partially_covered_clauses_count = None, missing_clauses_count = 0,
           article_id = ''PDPL:4'', article_number = 4 \<rparr>
   \<and> get_band \<lparr> m_article_number = Some 4, m_coverage_percentage = Some 68,
                 m_band = None \<rparr> = ''Missing''
   \<and> map_sum id band
       (calculate_article_coverage False
          (Article 4 ''PDPL:4:1'' False ''Lawful basis'' ''1'' [] ''4/1'' [])
          [''policy'', ''text''] None 5 (4 / 5)) = Inr (Some ''Partial'')"
  by code_simp

text \<open>
  C3 (as amended). When the embedding score lies between 0 and 1 and every score the judge
  returns lies between 0 and 1, the coverage percentage of the returned record and the
  coverage score of every clause judgment in it lie between 0 and 100, whichever path
  produced them.
\<close>

theorem coverage_percentage_in_range:
  assumes "judge_scores_in_unit func" and "0 \<le> e5" and "e5 \<le> 1"
    and "calculate_article_coverage mode article pages func bm25 e5 = Inr r"
  shows "0 \<le> coverage_percentage r \<and> coverage_percentage r \<le> 100 \<and>
         (\<forall>j \<in> set (clause_judgments r). 0 \<le> coverage_score j \<and> coverage_score j \<le> 100)"
proof -
  have ok: "record_ok (\<lambda>c m. 0 \<le> c \<and> c \<le> 1) r"
    using assms(4)
  proof (rule coverage_record_ok)
    show "(0 \<le> score res \<and> score res \<le> 1) \<and> (0 \<le> score res \<and> score res \<le> 1)"
      if "func = Some f" and "f ct pt n l = Some res" for f ct pt n l res
      using assms(1) that unfolding judge_scores_in_unit_def by blast
    show "0 \<le> traditional_blend bm25 e5 \<and> traditional_blend bm25 e5 \<le> 1"
      using assms(2,3) by (rule traditional_bounds)
    show "\<exists>m::string. 0 \<le> sum_list xs / of_nat (length xs) \<and> sum_list xs / of_nat (length xs) \<le> 1"
      if "xs \<noteq> []" and "\<forall>x \<in> set xs. \<exists>m::string. 0 \<le> x \<and> x \<le> 1" for xs :: "rat list"
      using average_unit_bounds [of xs] that by simp
  qed
  have j: "0 \<le> coverage_score j \<and> coverage_score j \<le> 100"
    if "judged_by (\<lambda>c m. 0 \<le> c \<and> c \<le> 1) j" for j
    using that percentage_bounds unfolding judged_by_def by auto
  have p: "0 \<le> coverage_percentage r \<and> coverage_percentage r \<le> 100"
    using ok percentage_bounds unfolding record_ok_def Let_def by auto
  have js: "\<forall>j \<in> set (clause_judgments r). 0 \<le> coverage_score j \<and> coverage_score j \<le> 100"
    using ok j unfolding record_ok_def clause_judgments_def Let_def by auto
  from p js show ?thesis by simp
qed


theorem coverage_percentage_in_range_witness:
  "judge_scores_in_unit None \<and> (0::rat) \<le> 4 / 5 \<and> (4 / 5 :: rat) \<le> 1 \<and>
   map_sum id coverage_percentage
     (calculate_article_coverage False
        (Article 4 ''PDPL:4:1'' False ''Lawful basis'' ''1'' [] ''4/1'' [])
        [''policy'', ''text''] None 5 (4 / 5)) = Inr 68 \<and>
   (0::rat) \<le> 68 \<and> (68::rat) \<le> 100"
proof -
  let ?r = "\<lparr> band = Some ''Partial'', coverage_type = None, coverage_percentage = 68,
           covered_clauses = [],
           partially_covered_clauses =
             Some [Judged \<lparr> ci_id = ''PDPL:4:1'', ci_article_number = 4,
                            ci_label = ''1'', ci_path = ''4/1'',
                            ci_text = ''Lawful basis'', coverage_score = 68,
                            matching_method = ''traditional_bm25_e5'',
                            llm_explanation = None, llm_confidence = None,
                            ci_band = Some ''Partial'' \<rparr>],
           missing_clauses = [], total_clauses = 1, covered_clauses_count = 0,
           partially_covered_clauses_count = Some 1, missing_clauses_count = 0,
           article_id = ''PDPL:4:1'', article_number = 4 \<rparr>"
  have j: "judge_scores_in_unit None" by (simp add: judge_scores_in_unit_def)
  have lo: "(0::rat) \<le> 4 / 5" and hi: "(4 / 5 :: rat) \<le> 1" by simp_all
  have h: "calculate_article_coverage False
        (Article 4 ''PDPL:4:1'' False ''Lawful basis'' ''1'' [] ''4/1'' [])
        [''policy'', ''text''] None 5 (4 / 5) = Inr ?r"
    by code_simp
  from coverage_percentage_in_range [OF j lo hi h]
  have "0 \<le> coverage_percentage ?r \<and> coverage_percentage ?r \<le> 100" by blast
  then show ?thesis using j h by simp
qed

text \<open>
  C3 as stated fails: the scorer applies no floor, and an embedding score is a cosine
  similarity, which can be negative. With lexical score 0 and embedding score -0.5 the
  traditional path gives the clause and the article the coverage -30.
\<close>

theorem coverage_percentage_negative:
  "map_sum id coverage_percentage
     (calculate_article_coverage False
        (Article 4 ''PDPL:4:1'' False ''Lawful basis'' ''1'' [] ''4/1'' [])
        [''policy'', ''text''] None 0 (- 1 / 2)) = Inr (- 30)
   \<and> map_sum id (\<lambda>r. map coverage_score (clause_judgments r))
     (calculate_article_coverage False
        (Article 4 ''PDPL:4:1'' False ''Lawful basis'' ''1'' [] ''4/1'' [])
        [''policy'', ''text''] None 0 (- 1 / 2)) = Inr [- 30]"
  by code_simp

text \<open>
  C4. On the article-level path (a judge is given, the article is a main article with a
  requirement text that is not empty, and the judge's one call returns a result), the
  call returns a record whose coverage percentage is the judge's score times 100,
  rounded to two decimals; the percentage is the same whatever the lexical and the
  embedding score are.
\<close>

theorem article_level_percentage_is_judge_score:
  assumes "is_main_article article"
    and "raw_article_text article (clauses article) \<noteq> []"
    and "f (raw_article_text article (clauses article)) (join_space pages)
           (art_number article) ''Article-level'' = Some res"
  shows "(\<exists>r. calculate_article_coverage mode article pages (Some f) bm25_score e5_score = Inr r \<and>
              coverage_percentage r = py_round2 (score res * 100)) \<and>
         map_sum id coverage_percentage
           (calculate_article_coverage mode article pages (Some f) bm25_score e5_score) =
         map_sum id coverage_percentage
           (calculate_article_coverage mode article pages (Some f) other_bm25_score other_e5_score)"
proof -
  have eq: "map_sum id coverage_percentage
              (calculate_article_coverage mode article pages (Some f) b e)
            = Inr (py_round2 (score res * 100))" for b e
    using assms
    by (simp add: calculate_article_coverage_article_level
          calculate_article_coverage_llm_article_level_def Let_def)
  have "\<exists>r. calculate_article_coverage mode article pages (Some f) bm25_score e5_score = Inr r \<and>
              coverage_percentage r = py_round2 (score res * 100)"
    using eq [of bm25_score e5_score]
    by (cases "calculate_article_coverage mode article pages (Some f) bm25_score e5_score") auto
  then show ?thesis using eq [of bm25_score e5_score] eq [of other_bm25_score other_e5_score] by simp
qed

theorem article_level_percentage_is_judge_score_witness:
  "is_main_article (Article 4 ''PDPL:4'' True ''Lawful basis'' ''0'' [] ''4'' []) \<and>
   raw_article_text (Article 4 ''PDPL:4'' True ''Lawful basis'' ''0'' [] ''4'' []) [] \<noteq> [] \<and>
   (\<exists>r. calculate_article_coverage True
          (Article 4 ''PDPL:4'' True ''Lawful basis'' ''0'' [] ''4'' [])
          [''policy'', ''text'']
          (Some (\<lambda>ct pt n l. Some \<lparr>score = 62 / 100, explanation = ''ok'', confidence = ''high''\<rparr>))
          5 (4 / 5) = Inr r \<and>
        coverage_percentage r = 62)"
proof -
  let ?a = "Article 4 ''PDPL:4'' True ''Lawful basis'' ''0'' [] ''4'' []"
  let ?res = "\<lparr>score = 62 / 100, explanation = ''ok'', confidence = ''high''\<rparr>"
  let ?f = "\<lambda>(ct::string) (pt::string) (n::int) (l::string). Some ?res"
  have m: "is_main_article ?a" by simp
  have t: "raw_article_text ?a (clauses ?a) \<noteq> []" by code_simp
  have c: "?f (raw_article_text ?a (clauses ?a)) (join_space [''policy'', ''text''])
             (art_number ?a) ''Article-level'' = Some ?res" by simp
  have p: "py_round2 (score ?res * 100) = 62" by code_simp
  from article_level_percentage_is_judge_score
         [OF m t c, where mode = True and bm25_score = 5 and e5_score = "4 / 5"]
  show ?thesis using m t unfolding p by simp
qed

text \<open>
  C5. In strict mode the loop over the clauses raises when the judge is absent or returns
  nothing, and so does the article-level path; the branch for a main article without
  clauses, reached when no judge is given, has no such check: it returns the traditional
  score (here 0.4 * 0.5 + 0.6 * 0.8, that is 68 percent) although the mode is strict.
\<close>

theorem strict_mode_scores_without_judge:
  "calculate_article_coverage True
     (Article 4 ''PDPL:4'' True ''Lawful basis'' ''0'' [] ''4'' [])
     [''policy'', ''text''] None 5 (4 / 5)
   = Inr \<lparr> band = None, coverage_type = Some ''partially_covered'',
           coverage_percentage = 68,
           covered_clauses = [Whole (Article 4 ''PDPL:4'' True ''Lawful basis'' ''0'' [] ''4'' [])],
           partially_covered_clauses = None, missing_clauses = [],
           total_clauses = 1, covered_clauses_count = 1,
           partially_covered_clauses_count = None, missing_clauses_count = 0,
           article_id = ''PDPL:4'', article_number = 4 \<rparr>"
  by code_simp

text \<open>
  C6 (as amended). In normal mode, with a judge that returns nothing for every call and a
  lexical score that is not negative, the scorer returns a record for the article and
  raises nothing. When the article has text to score, the record has exactly one clause
  judgment, which carries the traditional matching method and the coverage score
  0.4 * min(1, lexical / 10) + 0.6 * embedding, as a percentage rounded to two decimals;
  the coverage percentage of the record is that same value, its band follows from it and
  \<open>total_clauses\<close> is 1. When the article has no text to score, the record has the
  coverage percentage 0, the band Missing, no clause judgment and \<open>total_clauses\<close> 0.
\<close>

theorem judge_null_falls_back_to_traditional:
  assumes "\<forall>ct pt n l. f ct pt n l = None" and "0 \<le> bm25_score"
  shows "\<exists>r. calculate_article_coverage False article pages (Some f) bm25_score e5_score = Inr r \<and>
           article_number r = art_number article \<and>
           (if has_text_to_score article
            then coverage_percentage r =
                   py_round2 ((0.4 * min 1 (bm25_score / 10) + 0.6 * e5_score) * 100) \<and>
                 band r =
                   Some (if 75 \<le> coverage_percentage r then ''Full''
                         else if 40 \<le> coverage_percentage r then ''Partial''
                         else ''Missing'') \<and>
                 total_clauses r = 1 \<and>
                 (\<exists>j. clause_judgments r = [j] \<and>
                      matching_method j = ''traditional_bm25_e5'' \<and>
                      coverage_score j =
                        py_round2 ((0.4 * min 1 (bm25_score / 10) + 0.6 * e5_score) * 100))
            else coverage_percentage r = 0 \<and> band r = Some ''Missing'' \<and>
                 total_clauses r = 0 \<and> clause_judgments r = [])"
proof -
  define P where "P = py_round2 ((0.4 * min 1 (bm25_score / 10) + 0.6 * e5_score) * 100)"
  have T: "traditional_blend bm25_score e5_score * 100
           = (0.4 * min 1 (bm25_score / 10) + 0.6 * e5_score) * 100"
    using assms(2) by (auto simp: traditional_blend_def min_def)
  have tm: "traditional_clause_match ct ftn bm25_score e5_score
            = (traditional_blend bm25_score e5_score, None, None, ''traditional_bm25_e5'')"
    for ct ftn by (rule traditional_clause_match_eq)
  have PT: "py_round2 (traditional_blend bm25_score e5_score * 100) = P"
    unfolding P_def T ..
  have fN: "f ct pt n l = None" for ct pt n l using assms(1) by simp
  show ?thesis
    unfolding P_def [symmetric]
  proof (cases "is_main_article article")
    case True
    have eq: "calculate_article_coverage False article pages (Some f) bm25_score e5_score
              = calculate_article_coverage_llm_article_level False article (join_space pages)
                  (normalize_text (join_space pages)) (art_number article) (art_id article)
                  (clauses article) (Some f) bm25_score e5_score"
      using True by (simp add: calculate_article_coverage_article_level)
    show "\<exists>r. calculate_article_coverage False article pages (Some f) bm25_score e5_score = Inr r \<and>
           article_number r = art_number article \<and>
           (if has_text_to_score article
            then coverage_percentage r = P \<and>
                 band r =
                   Some (if 75 \<le> coverage_percentage r then ''Full''
                         else if 40 \<le> coverage_percentage r then ''Partial''
                         else ''Missing'') \<and>
                 total_clauses r = 1 \<and>
                 (\<exists>j. clause_judgments r = [j] \<and>
                      matching_method j = ''traditional_bm25_e5'' \<and>
                      coverage_score j = P)
            else coverage_percentage r = 0 \<and> band r = Some ''Missing'' \<and>
                 total_clauses r = 0 \<and> clause_judgments r = [])"
    proof (cases "raw_article_text article (clauses article) = []")
      case empty: True
      then show ?thesis
        unfolding eq using True
        by (simp add: calculate_article_coverage_llm_article_level_def has_text_to_score_def
              clause_judgments_def judgments_simps Let_def)
    next
      case False
      then show ?thesis
        unfolding eq using True
        by (simp add: calculate_article_coverage_llm_article_level_def has_text_to_score_def
              clause_judgments_def judgments_simps fN tm PT Let_def)
    qed
  next
    case False
    have eq: "calculate_article_coverage False article pages (Some f) bm25_score e5_score
              = (case score_clauses False (Some f) (join_space pages)
                        (normalize_text (join_space pages)) (art_number article)
                        bm25_score e5_score [article] ([], [], [], []) of
             Inl e \<Rightarrow> Inl e
           | Inr (covered, partially_covered, missing, scores) \<Rightarrow>
               let n_clauses = length scores;
                   percentage =
                     (if 0 < n_clauses
                      then py_round2 (sum_list scores / of_nat n_clauses * 100)
                      else 0);
                   article_band =
                     (if 75 \<le> percentage then ''Full''
                      else if 40 \<le> percentage then ''Partial''
                      else ''Missing'')
               in Inr \<lparr> band = Some article_band, coverage_type = None,
                        coverage_percentage = percentage,
                        covered_clauses = map Judged covered,
                        partially_covered_clauses = Some (map Judged partially_covered),
                        missing_clauses = map Judged missing,
                        total_clauses = n_clauses,
                        covered_clauses_count = length covered,
                        partially_covered_clauses_count = Some (length partially_covered),
                        missing_clauses_count = length missing,
                        article_id = art_id article, article_number = art_number article \<rparr>)"
      using calculate_article_coverage_loop [of "Some f" article False pages bm25_score e5_score]
        False by simp
    have cc: "clause_coverage False (Some f) ft ftn n bm25_score e5_score article
              = Inr (traditional_blend bm25_score e5_score, None, None, ''traditional_bm25_e5'')"
      for ft ftn n
      by (simp add: clause_coverage_def fN tm Let_def)
    show "\<exists>r. calculate_article_coverage False article pages (Some f) bm25_score e5_score = Inr r \<and>
           article_number r = art_number article \<and>
           (if has_text_to_score article
            then coverage_percentage r = P \<and>
                 band r =
                   Some (if 75 \<le> coverage_percentage r then ''Full''
                         else if 40 \<le> coverage_percentage r then ''Partial''
                         else ''Missing'') \<and>
                 total_clauses r = 1 \<and>
                 (\<exists>j. clause_judgments r = [j] \<and>
                      matching_method j = ''traditional_bm25_e5'' \<and>
                      coverage_score j = P)
            else coverage_percentage r = 0 \<and> band r = Some ''Missing'' \<and>
                 total_clauses r = 0 \<and> clause_judgments r = [])"
    proof (cases "has_text_to_score article")
      case no: False
      then have skip: "normalize_text (art_text article) = [] \<or>
                 normalize_text (art_text article) = ''article'' \<or>
                 normalize_text (art_text article) = ''article '' @ format_int (art_number article)"
        using False by (simp add: has_text_to_score_def Let_def)
      have "score_clauses False (Some f) (join_space pages)
              (normalize_text (join_space pages)) (art_number article)
              bm25_score e5_score [article] ([], [], [], []) = Inr ([], [], [], [])"
        using skip by (simp add: Let_def)
      then show ?thesis
        unfolding eq using no
        by (simp add: clause_judgments_def judgments_simps Let_def)
    next
      case yes: True
      then have noskip: "\<not> (normalize_text (art_text article) = [] \<or>
                 normalize_text (art_text article) = ''article'' \<or>
                 normalize_text (art_text article) = ''article '' @ format_int (art_number article))"
        using False by (simp add: has_text_to_score_def Let_def)
      define info where "info = \<lparr> ci_id = art_id article,
                            ci_article_number = art_number article,
                            ci_label = art_label article,
                            ci_path = art_path article,
                            ci_text = text_preview (art_text article),
                            coverage_score = P,
                            matching_method = ''traditional_bm25_e5'',
                            llm_explanation = None,
                            llm_confidence = None,
                            ci_band = None \<rparr>"
      have sc: "score_clauses False (Some f) (join_space pages)
              (normalize_text (join_space pages)) (art_number article)
              bm25_score e5_score [article] ([], [], [], [])
            = Inr (if 75 \<le> P then ([info], [], [], [traditional_blend bm25_score e5_score])
                   else if 40 \<le> P
                   then ([], [info\<lparr>ci_band := Some ''Partial''\<rparr>], [],
                         [traditional_blend bm25_score e5_score])
                   else ([], [], [info], [traditional_blend bm25_score e5_score]))"
        using noskip by (simp add: cc PT info_def if_truthy_def Let_def)
      show ?thesis
        unfolding eq sc using yes
        by (simp add: clause_judgments_def judgments_simps PT info_def Let_def)
    qed
  qed
qed

theorem judge_null_falls_back_to_traditional_witness:
  "(\<forall>ct pt n l. (\<lambda>(ct::string) (pt::string) (n::int) (l::string). (None :: llm_result option))
       ct pt n l = None) \<and> (0::rat) \<le> 5 \<and>
   has_text_to_score (Article 4 ''PDPL:4'' True ''Lawful basis'' ''0'' [] ''4'' []) \<and>
   (\<exists>r. calculate_article_coverage False
          (Article 4 ''PDPL:4'' True ''Lawful basis'' ''0'' [] ''4'' [])
          [''policy'', ''text''] (Some (\<lambda>ct pt n l. None)) 5 (4 / 5) = Inr r \<and>
        coverage_percentage r = 68 \<and> band r = Some ''Partial'' \<and> total_clauses r = 1 \<and>
        (\<exists>j. clause_judgments r = [j] \<and> matching_method j = ''traditional_bm25_e5'' \<and>
             coverage_score j = 68))"
proof -
  let ?f = "\<lambda>(ct::string) (pt::string) (n::int) (l::string). (None :: llm_result option)"
  let ?a = "Article 4 ''PDPL:4'' True ''Lawful basis'' ''0'' [] ''4'' []"
  have h1: "\<forall>ct pt n l. ?f ct pt n l = None" by simp
  have h2: "(0::rat) \<le> 5" by simp
  have h3: "has_text_to_score ?a" by code_simp
  have t: "py_round2 ((0.4 * min 1 (5 / 10) + 0.6 * (4 / 5)) * 100) = 68" by code_simp
  from judge_null_falls_back_to_traditional [OF h1 h2, of ?a "[''policy'', ''text'']" "4 / 5"]
  obtain r where r: "calculate_article_coverage False ?a [''policy'', ''text''] (Some ?f) 5 (4 / 5)
                     = Inr r"
    and p: "coverage_percentage r = 68"
    and b: "band r = Some (if 75 \<le> coverage_percentage r then ''Full''
                           else if 40 \<le> coverage_percentage r then ''Partial''
                           else ''Missing'')"
    and n: "total_clauses r = 1"
    and j: "\<exists>j. clause_judgments r = [j] \<and> matching_method j = ''traditional_bm25_e5'' \<and>
                coverage_score j = 68"
    unfolding t using h3 by auto
  from b p have "band r = Some ''Partial''" by simp
  with r p n j h3 show ?thesis by auto
qed

text \<open>
  C6 as stated fails for an article without text: the article-level path returns the
  zero record before it asks the judge, and the traditional formula, which gives 100 for
  the lexical score 10 and the embedding score 1, plays no part.
\<close>

theorem judge_null_empty_article_scores_zero:
  "calculate_article_coverage False
     (Article 4 ''PDPL:4'' True [] ''0'' [] ''4'' [])
     [''policy'', ''text''] (Some (\<lambda>ct pt n l. None)) 10 1
   = Inr \<lparr> band = Some ''Missing'', coverage_type = None, coverage_percentage = 0,
           covered_clauses = [], partially_covered_clauses = Some [],
           missing_clauses = [], total_clauses = 0, covered_clauses_count = 0,
           partially_covered_clauses_count = Some 0, missing_clauses_count = 0,
           article_id = ''PDPL:4'', article_number = 4 \<rparr>
   \<and> py_round2 ((0.4 * min 1 (10 / 10) + 0.6 * 1) * 100) = 100"
  by code_simp

section \<open>Properties of the re-ranking\<close>

lemma rescored_list:
  "map (apply_llm_score scores) (enumerate 0 (take (min 50 (length candidates)) candidates))
   @ map keep_embedding_score (drop (min 50 (length candidates)) candidates)
   = map (rescored scores candidates) [0..<length candidates]"
  by (rule nth_equalityI)
     (auto simp: nth_append nth_enumerate_eq rescored_def min_def)

lemma llm_rerank_articles_set:
  assumes "scores \<noteq> []"
  shows "set (llm_rerank_articles True (Some scores) candidates top_k)
           \<subseteq> rescored scores candidates ` {..<length candidates}"
    and "length candidates \<le> top_k \<Longrightarrow>
         set (llm_rerank_articles True (Some scores) candidates top_k)
           = rescored scores candidates ` {..<length candidates}"
proof -
  let ?ranked = "map (apply_llm_score scores)
                   (enumerate 0 (take (min 50 (length candidates)) candidates))"
  let ?rest = "map keep_embedding_score (drop (min 50 (length candidates)) candidates)"
  have len: "length ?ranked = min 50 (length candidates)" by simp
  have res: "llm_rerank_articles True (Some scores) candidates top_k
             = take top_k (sort_key (\<lambda>x. - get_final_score x) ?ranked @ ?rest)"
    using assms by (cases "candidates = []") (simp_all add: llm_rerank_articles_def Let_def)
  have all: "set (sort_key (\<lambda>x. - get_final_score x) ?ranked @ ?rest)
             = rescored scores candidates ` {..<length candidates}"
  proof -
    have "set (sort_key (\<lambda>x. - get_final_score x) ?ranked @ ?rest) = set (?ranked @ ?rest)"
      by simp
    also have "\<dots> = set (map (rescored scores candidates) [0..<length candidates])"
      by (simp only: rescored_list)
    also have "\<dots> = rescored scores candidates ` {..<length candidates}"
      by (simp add: atLeast0LessThan)
    finally show ?thesis .
  qed
  show "set (llm_rerank_articles True (Some scores) candidates top_k)
           \<subseteq> rescored scores candidates ` {..<length candidates}"
    unfolding res all [symmetric] by (rule set_take_subset)
  show "set (llm_rerank_articles True (Some scores) candidates top_k)
           = rescored scores candidates ` {..<length candidates}"
    if "length candidates \<le> top_k"
  proof -
    have "length (sort_key (\<lambda>x. - get_final_score x) ?ranked @ ?rest) \<le> top_k"
      using that by simp
    then show ?thesis unfolding res using all by simp
  qed
qed

lemma rescored_eq:
  assumes "i < length candidates" and "e5_similarity (candidates ! i) = Some e"
  shows "rescored scores candidates i =
           (if i < 50 \<and> i < length scores
            then (candidates ! i)\<lparr> llm_relevance_score := Some (scores ! i / 100),
                                    final_score := Some (0.7 * (scores ! i / 100) + 0.3 * e) \<rparr>
            else (candidates ! i)\<lparr> final_score := Some e \<rparr>)"
  using assms
  by (simp add: rescored_def apply_llm_score_def keep_embedding_score_def embedding_or_def
        Let_def)

text \<open>
  C7. When the language model is available and at least one score was parsed, and every
  candidate carries its embedding similarity (as hybrid retrieval sets it), every
  candidate that \<open>llm_rerank_articles\<close> returns is a candidate of the input, at some
  position \<open>i\<close>, with the final score 0.7 * (score / 100) + 0.3 * embedding when
  \<open>i\<close> is among the first fifty and has a parsed score, and with its embedding score as
  final score otherwise; and when \<open>top_k\<close> does not truncate, every candidate of the
  input is returned so. For the embedding score 0.6 and the relevance 80 the final
  score is 0.74.
\<close>

theorem rerank_final_score_blend:
  assumes "scores \<noteq> []" and "\<forall>x \<in> set candidates. e5_similarity x \<noteq> None"
  shows "(\<forall>c \<in> set (llm_rerank_articles True (Some scores) candidates top_k).
            \<exists>i e. i < length candidates \<and> e5_similarity (candidates ! i) = Some e \<and>
              c = (if i < 50 \<and> i < length scores
                   then (candidates ! i)\<lparr> llm_relevance_score := Some (scores ! i / 100),
                          final_score := Some (0.7 * (scores ! i / 100) + 0.3 * e) \<rparr>
                   else (candidates ! i)\<lparr> final_score := Some e \<rparr>)) \<and>
         (length candidates \<le> top_k \<longrightarrow>
            (\<forall>i < length candidates. \<exists>e. e5_similarity (candidates ! i) = Some e \<and>
               (if i < 50 \<and> i < length scores
                then (candidates ! i)\<lparr> llm_relevance_score := Some (scores ! i / 100),
                       final_score := Some (0.7 * (scores ! i / 100) + 0.3 * e) \<rparr>
                else (candidates ! i)\<lparr> final_score := Some e \<rparr>)
               \<in> set (llm_rerank_articles True (Some scores) candidates top_k)))"
proof (intro conjI ballI impI allI)
  fix c
  assume "c \<in> set (llm_rerank_articles True (Some scores) candidates top_k)"
  then obtain i where i: "i < length candidates" and c: "c = rescored scores candidates i"
    using llm_rerank_articles_set(1) [OF assms(1), of candidates top_k] by auto
  obtain e where e: "e5_similarity (candidates ! i) = Some e"
    using assms(2) i by (metis nth_mem not_None_eq)
  show "\<exists>i e. i < length candidates \<and> e5_similarity (candidates ! i) = Some e \<and>
              c = (if i < 50 \<and> i < length scores
                   then (candidates ! i)\<lparr> llm_relevance_score := Some (scores ! i / 100),
                          final_score := Some (0.7 * (scores ! i / 100) + 0.3 * e) \<rparr>
                   else (candidates ! i)\<lparr> final_score := Some e \<rparr>)"
    using i e c rescored_eq [OF i e, of scores] by blast
next
  fix i
  assume top: "length candidates \<le> top_k" and i: "i < length candidates"
  obtain e where e: "e5_similarity (candidates ! i) = Some e"
    using assms(2) i by (metis nth_mem not_None_eq)
  have "rescored scores candidates i
          \<in> set (llm_rerank_articles True (Some scores) candidates top_k)"
    using llm_rerank_articles_set(2) [OF assms(1) top] i by simp
  then show "\<exists>e. e5_similarity (candidates ! i) = Some e \<and>
               (if i < 50 \<and> i < length scores
                then (candidates ! i)\<lparr> llm_relevance_score := Some (scores ! i / 100),
                       final_score := Some (0.7 * (scores ! i / 100) + 0.3 * e) \<rparr>
                else (candidates ! i)\<lparr> final_score := Some e \<rparr>)
               \<in> set (llm_rerank_articles True (Some scores) candidates top_k)"
    using e rescored_eq [OF i e, of scores] by simp
qed

theorem rerank_final_score_blend_witness:
  "[80 :: rat] \<noteq> [] \<and>
   e5_similarity
     \<lparr> cand_article = Article 4 ''PDPL:4'' True ''Lawful basis'' ''0'' [] ''4'' [],
       cand_bm25_score = Some 3, e5_similarity = Some (6 / 10),
       similarity = Some (6 / 10), llm_relevance_score = None,
       final_score = None \<rparr> = Some (6 / 10) \<and>
   llm_rerank_articles True (Some [80])
     [\<lparr> cand_article = Article 4 ''PDPL:4'' True ''Lawful basis'' ''0'' [] ''4'' [],
        cand_bm25_score = Some 3, e5_similarity = Some (6 / 10),
        similarity = Some (6 / 10), llm_relevance_score = None, final_score = None \<rparr>] 20
   = [\<lparr> cand_article = Article 4 ''PDPL:4'' True ''Lawful basis'' ''0'' [] ''4'' [],
        cand_bm25_score = Some 3, e5_similarity = Some (6 / 10),
        similarity = Some (6 / 10), llm_relevance_score = Some (8 / 10),
        final_score = Some (74 / 100) \<rparr>]"
proof -
  let ?c = "\<lparr> cand_article = Article 4 ''PDPL:4'' True ''Lawful basis'' ''0'' [] ''4'' [],
        cand_bm25_score = Some (3::rat), e5_similarity = Some (6 / 10 :: rat),
        similarity = Some (6 / 10 :: rat), llm_relevance_score = None :: rat option,
        final_score = None :: rat option \<rparr>"
  have h1: "[80 :: rat] \<noteq> []" by simp
  have h2: "\<forall>x \<in> set [?c]. e5_similarity x \<noteq> None" by simp
  have l: "length (llm_rerank_articles True (Some [80]) [?c] 20) = 1" by code_simp
  then obtain c where res: "llm_rerank_articles True (Some [80]) [?c] 20 = [c]"
    by (cases "llm_rerank_articles True (Some [80]) [?c] 20") auto
  have "c \<in> set (llm_rerank_articles True (Some [80]) [?c] 20)" using res by simp
  with rerank_final_score_blend [OF h1 h2, of 20]
  obtain i e where i: "i < length [?c]" and e: "e5_similarity ([?c] ! i) = Some e"
    and c: "c = (if i < 50 \<and> i < length [80 :: rat]
                 then ([?c] ! i)\<lparr> llm_relevance_score := Some ([80] ! i / 100),
                        final_score := Some (0.7 * ([80] ! i / 100) + 0.3 * e) \<rparr>
                 else ([?c] ! i)\<lparr> final_score := Some e \<rparr>)"
    by blast
  from i have i0: "i = 0" by simp
  from e i0 have e0: "e = 6 / 10" by simp
  from c i0 e0
  have "c = ?c\<lparr> llm_relevance_score := Some (8 / 10), final_score := Some (74 / 100) \<rparr>"
    by simp
  then show ?thesis using res by simp
qed

section \<open>Properties of the matching\<close>

lemma add_semantic_matches_sound:
  assumes "add_semantic_matches ms (seen_keys, combined) = (seen_keys', combined')"
    and "m \<in> set combined'"
  shows "m \<in> set combined \<or>
         (m \<in> set ms \<and> (\<exists>s. rm_similarity m = Some s \<and> MINIMUM_SIMILARITY \<le> s))"
  using assms
proof (induction ms arbitrary: seen_keys combined)
  case Nil
  then show ?case by simp
next
  case (Cons x xs)
  let ?sim = "case rm_similarity x of None \<Rightarrow> 0 | Some s \<Rightarrow> s"
  show ?case
  proof (cases "?sim < MINIMUM_SIMILARITY")
    case True
    then have "add_semantic_matches xs (seen_keys, combined) = (seen_keys', combined')"
      using Cons.prems(1) by (simp add: Let_def)
    from Cons.IH [OF this Cons.prems(2)] show ?thesis by auto
  next
    case False
    then have x: "\<exists>s. rm_similarity x = Some s \<and> MINIMUM_SIMILARITY \<le> s"
      by (cases "rm_similarity x") (auto simp: MINIMUM_SIMILARITY_def)
    show ?thesis
    proof (cases "match_key x \<notin> seen_keys")
      case True
      then have "add_semantic_matches xs (insert (match_key x) seen_keys, combined @ [x])
                 = (seen_keys', combined')"
        using Cons.prems(1) False by (simp add: Let_def)
      from Cons.IH [OF this Cons.prems(2)] x show ?thesis by auto
    next
      case nk: False
      then have "add_semantic_matches xs (seen_keys, combined) = (seen_keys', combined')"
        using Cons.prems(1) False by (simp add: Let_def)
      from Cons.IH [OF this Cons.prems(2)] show ?thesis by auto
    qed
  qed
qed

lemma add_text_matches_sound:
  assumes "add_text_matches threshold ms (seen_keys, combined) = Inr (seen_keys', combined')"
    and "m \<in> set combined'"
  shows "m \<in> set combined \<or>
         (m \<in> set ms \<and> (\<exists>s. rm_similarity m = Some s \<and> threshold \<le> s))"
  using assms
proof (induction ms arbitrary: seen_keys combined)
  case Nil
  then show ?case by simp
next
  case (Cons x xs)
  show ?case
  proof (cases "match_key x \<notin> seen_keys")
    case True
    then obtain s where s: "rm_similarity x = Some s"
      using Cons.prems(1) by (cases "rm_similarity x") auto
    show ?thesis
    proof (cases "threshold \<le> s")
      case le: True
      then have "add_text_matches threshold xs (insert (match_key x) seen_keys, combined @ [x])
                 = Inr (seen_keys', combined')"
        using Cons.prems(1) True s by simp
      from Cons.IH [OF this Cons.prems(2)] s le show ?thesis by auto
    next
      case False
      then have "add_text_matches threshold xs (seen_keys, combined)
                 = Inr (seen_keys', combined')"
        using Cons.prems(1) True s by simp
      from Cons.IH [OF this Cons.prems(2)] show ?thesis by auto
    qed
  next
    case False
    then have "add_text_matches threshold xs (seen_keys, combined)
               = Inr (seen_keys', combined')"
      using Cons.prems(1) by simp
    from Cons.IH [OF this Cons.prems(2)] show ?thesis by auto
  qed
qed

text \<open>
  C10 (as amended). When the similarity of every hybrid-retrieval match is its embedding
  similarity (the key \<open>e5_score\<close>; hybrid retrieval sets both to the same value unless
  re-ranking has put a final score in its place), every match that \<open>match_with_pdpl\<close>
  passes to the coverage scorer either comes from hybrid retrieval and has an embedding
  similarity of at least 0.70, or, only when the text fallback is enabled, comes from
  text matching and has a text similarity of at least the threshold given. Without the
  text fallback every scored match has an embedding similarity of at least 0.70.
\<close>

theorem combined_matches_similarity_floor:
  assumes "combined_matches semantic_matches text_matches threshold use_text_fallback = Inr ms"
    and "\<forall>x \<in> set semantic_matches. rm_similarity x = rm_e5_score x"
    and "m \<in> set ms"
  shows "(m \<in> set semantic_matches \<and>
            (\<exists>s. rm_e5_score m = Some s \<and> MINIMUM_SIMILARITY \<le> s)) \<or>
         (use_text_fallback \<and> m \<in> set text_matches \<and>
            (\<exists>s. rm_similarity m = Some s \<and> threshold \<le> s))"
proof -
  obtain seen0 comb0 where st: "add_semantic_matches semantic_matches ({}, []) = (seen0, comb0)"
    by (cases "add_semantic_matches semantic_matches ({}, [])") auto
  have sem: "x \<in> set semantic_matches \<and>
               (\<exists>s. rm_e5_score x = Some s \<and> MINIMUM_SIMILARITY \<le> s)"
    if "x \<in> set comb0" for x
  proof -
    from add_semantic_matches_sound [OF st that]
    obtain s where x: "x \<in> set semantic_matches" and s: "rm_similarity x = Some s"
      and le: "MINIMUM_SIMILARITY \<le> s" by auto
    from assms(2) x s have "rm_e5_score x = Some s" by simp
    with x le show ?thesis by simp
  qed
  show ?thesis
  proof (cases use_text_fallback)
    case False
    then have "ms = comb0" using assms(1) st by (simp add: combined_matches_def Let_def)
    then show ?thesis using sem assms(3) by blast
  next
    case True
    then obtain seen1 where
      "add_text_matches threshold text_matches (seen0, comb0) = Inr (seen1, ms)"
      using assms(1) st
      by (auto simp: combined_matches_def Let_def split: sum.splits)
    from add_text_matches_sound [OF this assms(3)] sem True show ?thesis by blast
  qed
qed

theorem combined_matches_similarity_floor_witness:
  "rm_similarity
     \<lparr> rm_article = Article 4 ''PDPL:4'' True ''Lawful basis'' ''0'' [] ''4'' [],
       rm_similarity = Some (83 / 100), rm_bm25_score = Some 3,
       rm_e5_score = Some (83 / 100), rm_e5_similarity = None \<rparr> = Some (83 / 100) \<and>
   combined_matches
     [\<lparr> rm_article = Article 4 ''PDPL:4'' True ''Lawful basis'' ''0'' [] ''4'' [],
        rm_similarity = Some (83 / 100), rm_bm25_score = Some 3,
        rm_e5_score = Some (83 / 100), rm_e5_similarity = None \<rparr>,
      \<lparr> rm_article = Article 5 ''PDPL:5'' True ''Consent'' ''0'' [] ''5'' [],
        rm_similarity = Some (65 / 100), rm_bm25_score = Some 2,
        rm_e5_score = Some (65 / 100), rm_e5_similarity = None \<rparr>]
     [] (1 / 2) False
   = Inr [\<lparr> rm_article = Article 4 ''PDPL:4'' True ''Lawful basis'' ''0'' [] ''4'' [],
            rm_similarity = Some (83 / 100), rm_bm25_score = Some 3,
            rm_e5_score = Some (83 / 100), rm_e5_similarity = None \<rparr>]
   \<and> MINIMUM_SIMILARITY \<le> 83 / 100"
proof -
  let ?m4 = "\<lparr> rm_article = Article 4 ''PDPL:4'' True ''Lawful basis'' ''0'' [] ''4'' [],
        rm_similarity = Some (83 / 100 :: rat), rm_bm25_score = Some (3 :: rat),
        rm_e5_score = Some (83 / 100 :: rat), rm_e5_similarity = None :: rat option \<rparr>"
  let ?m5 = "\<lparr> rm_article = Article 5 ''PDPL:5'' True ''Consent'' ''0'' [] ''5'' [],
        rm_similarity = Some (65 / 100 :: rat), rm_bm25_score = Some (2 :: rat),
        rm_e5_score = Some (65 / 100 :: rat), rm_e5_similarity = None :: rat option \<rparr>"
  have h: "combined_matches [?m4, ?m5] [] (1 / 2) False = Inr [?m4]" by code_simp
  have e: "\<forall>x \<in> set [?m4, ?m5]. rm_similarity x = rm_e5_score x" by simp
  have m: "?m4 \<in> set [?m4]" by simp
  from combined_matches_similarity_floor [OF h e m]
  obtain s where "rm_e5_score ?m4 = Some s" and le: "MINIMUM_SIMILARITY \<le> s" by auto
  then have "s = 83 / 100" by simp
  with le have "MINIMUM_SIMILARITY \<le> 83 / 100" by simp
  with h show ?thesis by simp
qed

text \<open>
  C10 as stated fails with the text fallback, which is enabled by default: a text match
  with similarity 0.6, for the threshold 0.5 that the routes pass, is scored although
  0.6 is below the floor.
\<close>

theorem text_match_below_floor_is_scored:
  "combined_matches []
     [\<lparr> rm_article = Article 5 ''PDPL:5'' True ''Consent'' ''0'' [] ''5'' [],
        rm_similarity = Some (6 / 10), rm_bm25_score = None, rm_e5_score = None,
        rm_e5_similarity = None \<rparr>]
     (1 / 2) True
   = Inr [\<lparr> rm_article = Article 5 ''PDPL:5'' True ''Consent'' ''0'' [] ''5'' [],
            rm_similarity = Some (6 / 10), rm_bm25_score = None, rm_e5_score = None,
            rm_e5_similarity = None \<rparr>]
   \<and> 6 / 10 < MINIMUM_SIMILARITY"
  by code_simp

end
